theory Spec2Isabelle
  imports Complex_Main "HOL-Library.Sublist" "HOL-Library.AList"
begin

text \<open>
  A model of the geocoding resolver (\<open>api/utils/geocode.py\<close>) and of the cadastral
  matcher (\<open>api/models/catastro.py\<close>). Every function keeps the name it has in the
  source, without the leading underscore of a private method; the first argument \<open>w\<close> is
  the outside world, \<open>self\<close> the state of the service.
\<close>

section \<open>Python strings\<close>

text \<open>
  A Python \<open>str\<close> is a sequence of Unicode code points. The model covers the code points
  below 256 (Latin-1), one \<^typ>\<open>char\<close> each: \<open>of_char c\<close> is the code point. On this range
  \<open>str.lower()\<close> works character by character, and the white space of \<open>\s\<close> and of
  \<open>str.strip()\<close> is the set below.
\<close>

definition isspace :: "char \<Rightarrow> bool" where
  "isspace c =
     (let n = (of_char c :: nat)
      in (9 \<le> n \<and> n \<le> 13) \<or> (28 \<le> n \<and> n \<le> 32) \<or> n = 133 \<or> n = 160)"

definition lower_char :: "char \<Rightarrow> char" where
  "lower_char c =
     (let n = (of_char c :: nat)
      in if (65 \<le> n \<and> n \<le> 90) \<or> (192 \<le> n \<and> n \<le> 222 \<and> n \<noteq> 215)
         then char_of (n + 32) else c)"

definition lower :: "string \<Rightarrow> string" where
  "lower s = map lower_char s"

text \<open>\<open>re.sub(r'\s+', ' ', s)\<close>: every maximal run of white space becomes one space.\<close>

function sub_ws :: "string \<Rightarrow> string" where
  "sub_ws [] = []"
| "sub_ws (c # cs) =
     (if isspace c then CHR '' '' # sub_ws (dropWhile isspace cs) else c # sub_ws cs)"
  by pat_completeness auto
termination
  by (relation "measure length") (auto simp: length_dropWhile_le less_Suc_eq_le)

definition strip :: "string \<Rightarrow> string" where
  "strip s = rev (dropWhile isspace (rev (dropWhile isspace s)))"

text \<open>
  \<open>s.replace(old, new)\<close>: the occurrences of \<open>old\<close> are found from the left and do not
  overlap; with an empty \<open>old\<close>, \<open>new\<close> goes before every character and at the end.
\<close>

fun replace :: "'a list \<Rightarrow> 'a list \<Rightarrow> 'a list \<Rightarrow> 'a list" where
  "replace old new [] = (if old = [] then new else [])"
| "replace old new (c # cs) =
     (if old = [] then new @ c # replace old new cs
      else if prefix old (c # cs) then new @ replace old new (drop (length old) (c # cs))
      else c # replace old new cs)"

section \<open>Address normalisation\<close>

text \<open>
  The table of \<open>_normalize_address\<close>, in the order of the dictionary literal. The key
  written \<open>'no\.'\<close> in the source is the four characters n, o, backslash, dot.
\<close>

definition replacements :: "(string \<times> string) list" where
  "replacements =
     [(''calle'', ''cl''),
      (''carrera'', ''kr''),
      (''avenida'', ''av''),
      (''diagonal'', ''dg''),
      (''transversal'', ''tv''),
      (''sur'', ''s''),
      (''norte'', ''n''),
      (''este'', ''e''),
      (''oeste'', ''o''),
      ([CHR ''n'', CHR ''o'', CHR 0x5C, CHR ''.''], ''''),
      (''numero'', ''''),
      (''#'', ''''),
      (''-'', '' '')]"

definition apply_replacements :: "(string \<times> string) list \<Rightarrow> string \<Rightarrow> string" where
  "apply_replacements table address = foldl (\<lambda>a (old, new). replace old new a) address table"

definition normalize_address :: "string \<Rightarrow> string" where
  "normalize_address address = apply_replacements replacements (strip (sub_ws (lower address)))"


text \<open>
  The two conditions under which a string is left alone by \<open>_normalize_address\<close>: its white
  space is already single, inner spaces only, and no key of the table occurs in it.
\<close>

definition ws_clean :: "string \<Rightarrow> bool" where
  "ws_clean s \<longleftrightarrow>
     list_all (\<lambda>c. isspace c \<longrightarrow> c = CHR '' '') s \<and> \<not> sublist ''  '' s \<and>
     \<not> prefix '' '' s \<and> \<not> suffix '' '' s"

definition key_free :: "(string \<times> string) list \<Rightarrow> string \<Rightarrow> bool" where
  "key_free table s \<longleftrightarrow> list_all (\<lambda>(old, new). \<not> sublist old s) table"

definition lowered :: "string \<Rightarrow> bool" where
  "lowered s \<longleftrightarrow> (\<forall>c \<in> set s. lower_char c = c)"

section \<open>Python values\<close>

text \<open>
  Exceptions are values: a computation that can raise returns \<open>exn + 'a\<close>, with \<open>Inl\<close> for
  the exception. \<open>Raised\<close> stands for an exception of a library outside this repository
  (a transport error of \<open>requests\<close>, a JSON decoding error), named by its class.
\<close>

datatype exn = AttributeError | KeyError | ValueError | OverflowError | Raised string

definition bind_exn :: "exn + 'a \<Rightarrow> ('a \<Rightarrow> exn + 'b) \<Rightarrow> exn + 'b" where
  "bind_exn m f = (case m of Inl e \<Rightarrow> Inl e | Inr x \<Rightarrow> f x)"

fun traverse_exn :: "('a \<Rightarrow> exn + 'b) \<Rightarrow> 'a list \<Rightarrow> exn + 'b list" where
  "traverse_exn f [] = Inr []"
| "traverse_exn f (x # xs) =
     (case f x of
        Inl e \<Rightarrow> Inl e
      | Inr y \<Rightarrow> (case traverse_exn f xs of Inl e \<Rightarrow> Inl e | Inr ys \<Rightarrow> Inr (y # ys)))"

subsection \<open>Floats\<close>

text \<open>
  A Python \<open>float\<close> is an IEEE 754 binary64 number: a sign and a magnitude (a rational that
  the format represents; \<open>Finite True 0\<close> is \<open>-0.0\<close>), an infinity or NaN. Every operation
  computes the exact result and rounds it to the nearest representable number, ties to the
  even significand (\<open>round_to_double\<close>): 53 bits of precision, exponents from -1022
  (subnormal numbers below) to 1023, overflow to infinity.
\<close>

datatype double = Finite bool rat | Infinity bool | NaN

function bit_length :: "int \<Rightarrow> int" where
  "bit_length n = (if n \<le> 0 then 0 else 1 + bit_length (n div 2))"
  by pat_completeness auto
termination
  by (relation "measure nat") auto

declare bit_length.simps [simp del]

definition pow2 :: "int \<Rightarrow> rat" where
  "pow2 k = (if 0 \<le> k then 2 ^ nat k else 1 / 2 ^ nat (- k))"

text \<open>For \<open>0 < q\<close>, \<open>ilog2 q\<close> is the exponent \<open>e\<close> with \<open>2^e \<le> q < 2^(e+1)\<close>.\<close>

definition ilog2 :: "rat \<Rightarrow> int" where
  "ilog2 q = (if 1 \<le> q then bit_length \<lfloor>q\<rfloor> - 1 else - bit_length (\<lceil>1 / q\<rceil> - 1))"

definition round_half_even :: "rat \<Rightarrow> int" where
  "round_half_even q =
     (let f = \<lfloor>q\<rfloor>; d = q - of_int f
      in if d < 1 / 2 then f else if 1 / 2 < d then f + 1 else if even f then f else f + 1)"

definition round_to_double :: "bool \<Rightarrow> rat \<Rightarrow> double" where
  "round_to_double neg q =
     (if q = 0 then Finite neg 0
      else let e = max (ilog2 q) (- 1022);
               ulp = pow2 (e - 52);
               r = of_int (round_half_even (q / ulp)) * ulp
           in if pow2 1024 \<le> r then Infinity neg else Finite neg r)"

text \<open>A decimal literal of the source, such as \<open>0.3\<close>, is the double nearest to it.\<close>

definition float_literal :: "rat \<Rightarrow> double" where
  "float_literal q = round_to_double (q < 0) \<bar>q\<bar>"

fun fneg :: "double \<Rightarrow> double" where
  "fneg (Finite s m) = Finite (\<not> s) m"
| "fneg (Infinity s) = Infinity (\<not> s)"
| "fneg NaN = NaN"

fun fmul :: "double \<Rightarrow> double \<Rightarrow> double" where
  "fmul NaN y = NaN"
| "fmul x NaN = NaN"
| "fmul (Infinity s) (Infinity t) = Infinity (s \<noteq> t)"
| "fmul (Infinity s) (Finite t n) = (if n = 0 then NaN else Infinity (s \<noteq> t))"
| "fmul (Finite s m) (Infinity t) = (if m = 0 then NaN else Infinity (s \<noteq> t))"
| "fmul (Finite s m) (Finite t n) = round_to_double (s \<noteq> t) (m * n)"

fun fadd :: "double \<Rightarrow> double \<Rightarrow> double" where
  "fadd NaN y = NaN"
| "fadd x NaN = NaN"
| "fadd (Infinity s) (Infinity t) = (if s = t then Infinity s else NaN)"
| "fadd (Infinity s) (Finite t n) = Infinity s"
| "fadd (Finite s m) (Infinity t) = Infinity t"
| "fadd (Finite s m) (Finite t n) =
     (if s = t then round_to_double s (m + n)
      else if n < m then round_to_double s (m - n)
      else if m < n then round_to_double t (n - m)
      else Finite False 0)"

definition fsub :: "double \<Rightarrow> double \<Rightarrow> double" where
  "fsub x y = fadd x (fneg y)"

text \<open>
  \<open>float(n)\<close> and the conversion of the \<open>int\<close> operand of a mixed product: correctly
  rounded, OverflowError when the integer is too large for a float.
\<close>

definition int_to_float :: "int \<Rightarrow> exn + double" where
  "int_to_float n =
     (case round_to_double (n < 0) (of_int \<bar>n\<bar>) of
        Infinity s \<Rightarrow> Inl OverflowError
      | d \<Rightarrow> Inr d)"

text \<open>\<open>int(x)\<close> of a float truncates towards zero; NaN and the infinities raise.\<close>

fun float_to_int :: "double \<Rightarrow> exn + int" where
  "float_to_int NaN = Inl ValueError"
| "float_to_int (Infinity s) = Inl OverflowError"
| "float_to_int (Finite s m) = Inr (if s then - \<lfloor>m\<rfloor> else \<lfloor>m\<rfloor>)"

text \<open>
  \<open>round(x, 2)\<close>: the decimal with two places nearest to the exact value of \<open>x\<close> (ties to
  the even last digit), converted back to a float; NaN and the infinities round to
  themselves.
\<close>

fun py_round2 :: "double \<Rightarrow> exn + double" where
  "py_round2 (Finite s m) =
     (case round_to_double s (of_int (round_half_even (m * 100)) / 100) of
        Infinity t \<Rightarrow> Inl OverflowError
      | d \<Rightarrow> Inr d)"
| "py_round2 d = Inr d"

subsection \<open>Table cells and rows\<close>

text \<open>
  A value read by \<open>pandas.read_csv\<close>: text, an integer, or a float (NaN for a missing
  field). A row handed to the service (\<open>pandas.Series\<close>) maps column names to cells.
\<close>

datatype cell = PyStr string | PyInt int | PyFloat double

type_synonym series = "(string \<times> cell) list"

text \<open>\<open>predio.get(key, default)\<close>: the value under the key, or the default.\<close>

definition series_get :: "series \<Rightarrow> string \<Rightarrow> cell \<Rightarrow> cell" where
  "series_get predio key dflt = (case map_of predio key of Some v \<Rightarrow> v | None \<Rightarrow> dflt)"

text \<open>
  A \<open>DataFrame\<close>: the column names and the rows in file order, every row keyed by the
  column names. \<open>df.empty\<close> holds when either axis has length zero.
\<close>

record dataframe =
  columns :: "string list"
  rows :: "series list"

definition empty_frame :: dataframe where
  "empty_frame = \<lparr>columns = [], rows = []\<rparr>"

definition df_empty :: "dataframe \<Rightarrow> bool" where
  "df_empty df \<longleftrightarrow> columns df = [] \<or> rows df = []"

text \<open>\<open>df[name]\<close>: KeyError for an unknown column; a field missing in a row reads as NaN.\<close>

definition getitem :: "dataframe \<Rightarrow> string \<Rightarrow> exn + cell list" where
  "getitem df name =
     (if name \<in> set (columns df)
      then Inr (map (\<lambda>r. series_get r name (PyFloat NaN)) (rows df))
      else Inl KeyError)"

text \<open>
  \<open>df[name] = values\<close>: an existing column is overwritten in place, a new one is added
  after the last column.
\<close>

definition setitem :: "dataframe \<Rightarrow> string \<Rightarrow> cell list \<Rightarrow> dataframe" where
  "setitem df name vals =
     df\<lparr>columns := (if name \<in> set (columns df) then columns df else columns df @ [name]),
        rows := map (\<lambda>(r, v). AList.update name v r) (zip (rows df) vals)\<rparr>"

text \<open>\<open>df[mask]\<close> with a Boolean mask: the rows whose mask entry is true, in order.\<close>

definition boolean_index :: "dataframe \<Rightarrow> bool list \<Rightarrow> series list" where
  "boolean_index df flags = map fst (filter snd (zip (rows df) flags))"

section \<open>The outside world\<close>

text \<open>
  The canonical geocoding response (the shape of the Google Geocoding API), and one entry
  of a Nominatim answer, whose keys may be absent.
\<close>

record latlng =
  lat :: double
  lng :: double

record address_component =
  long_name :: string
  short_name :: string
  component_types :: "string list"

record geocode_item =
  formatted_address :: string
  location :: latlng
  location_type :: string
  viewport_northeast :: latlng
  viewport_southwest :: latlng
  place_id :: cell
  item_types :: "string list"
  address_components :: "address_component list"

record geocode_response =
  status :: string
  results :: "geocode_item list"

record nominatim_item =
  n_lat :: "cell option"
  n_lon :: "cell option"
  n_display_name :: "string option"
  n_address :: "(string \<times> string) list option"
  n_place_id :: "cell option"
  n_class :: "string option"

type_synonym params = "(string \<times> string) list"

text \<open>
  What the program cannot decide is a parameter, the world \<open>w\<close>: the content of the CSV
  file, the outcome of the two HTTP requests (the decoded JSON body, or the exception of
  \<open>requests.get\<close> or \<open>response.json()\<close>), the number drawn by \<open>DataFrame.sample\<close>, and
  the built-in parsers \<open>float(str)\<close> and \<open>int(str)\<close>.
\<close>

record world =
  read_csv :: "string \<Rightarrow> exn + dataframe"
  google_json :: "params \<Rightarrow> exn + geocode_response"
  nominatim_json :: "params \<Rightarrow> exn + nominatim_item list"
  random_draw :: nat
  float_of_str :: "string \<Rightarrow> exn + double"
  int_of_str :: "string \<Rightarrow> exn + int"

text \<open>The effects of a call that reach the outside: a pause, an HTTP request.\<close>

datatype event = Sleep nat | HttpGet string params params

text \<open>\<open>float(x)\<close> and \<open>int(x)\<close> of a cell.\<close>

definition py_float :: "world \<Rightarrow> cell \<Rightarrow> exn + double" where
  "py_float w x =
     (case x of PyStr s \<Rightarrow> float_of_str w s | PyInt n \<Rightarrow> int_to_float n | PyFloat d \<Rightarrow> Inr d)"

definition py_int :: "world \<Rightarrow> cell \<Rightarrow> exn + int" where
  "py_int w x =
     (case x of PyStr s \<Rightarrow> int_of_str w s | PyInt n \<Rightarrow> Inr n | PyFloat d \<Rightarrow> float_to_int d)"

text \<open>The product of a float and an \<open>int\<close>: the integer is converted first.\<close>

definition float_times_int :: "double \<Rightarrow> int \<Rightarrow> exn + double" where
  "float_times_int x n = bind_exn (int_to_float n) (\<lambda>y. Inr (fmul x y))"

text \<open>\<open>s.split(sep)\<close> for a separator of one character.\<close>

fun split_on :: "char \<Rightarrow> string \<Rightarrow> string list" where
  "split_on sep [] = [[]]"
| "split_on sep (c # cs) =
     (if c = sep then [] # split_on sep cs
      else (case split_on sep cs of [] \<Rightarrow> [[c]] | p # ps \<Rightarrow> (c # p) # ps))"

text \<open>A result dictionary: \<open>{"success": False, "error": ...}\<close> or a successful payload.
  \<open>FormatFailure e\<close> is the failure whose message is
  \<open>f"Error al formatear informacion del predio: {e}"\<close>.\<close>

datatype 'a result = Failure string | FormatFailure exn | Success 'a

section \<open>Geocoding (\<open>utils/geocode.py\<close>)\<close>

definition GOOGLE_MAPS_API_URL :: string where
  "GOOGLE_MAPS_API_URL = ''https://maps.googleapis.com/maps/api/geocode/json''"

definition NOMINATIM_API_URL :: string where
  "NOMINATIM_API_URL = ''https://nominatim.openstreetmap.org/search''"

text \<open>The truth value of \<open>country\<close> in \<open>if country:\<close>.\<close>

definition truthy :: "string option \<Rightarrow> bool" where
  "truthy country \<longleftrightarrow> (case country of None \<Rightarrow> False | Some c \<Rightarrow> c \<noteq> [])"

text \<open>
  \<open>_geocode_google\<close> and \<open>_geocode_nominatim\<close> build the parameters of the request and
  return the decoded answer; the answer of Nominatim is converted. The answers are typed:
  a decoded body of another shape than its record is outside the model.
\<close>

definition geocode_google ::
  "world \<Rightarrow> string option \<Rightarrow> string \<Rightarrow> string option \<Rightarrow> (exn + geocode_response) \<times> event list" where
  "geocode_google w google_api_key address country =
     (let params = [(''address'', address), (''key'', case google_api_key of None \<Rightarrow> [] | Some k \<Rightarrow> k)]
                   @ (if truthy country
                      then [(''components'', ''country:'' @ (case country of None \<Rightarrow> [] | Some c \<Rightarrow> c))]
                      else [])
      in (google_json w params, [HttpGet GOOGLE_MAPS_API_URL params []]))"

text \<open>The body of the loop of \<open>_convert_nominatim_to_google_format\<close>, for one result.\<close>

definition convert_item :: "world \<Rightarrow> nominatim_item \<Rightarrow> exn + geocode_item" where
  "convert_item w result =
     bind_exn (py_float w (case n_lat result of None \<Rightarrow> PyInt 0 | Some v \<Rightarrow> v)) (\<lambda>lat.
     bind_exn (py_float w (case n_lon result of None \<Rightarrow> PyInt 0 | Some v \<Rightarrow> v)) (\<lambda>lon.
       Inr \<lparr>formatted_address = (case n_display_name result of None \<Rightarrow> [] | Some v \<Rightarrow> v),
            location = \<lparr>lat = lat, lng = lon\<rparr>,
            location_type = ''APPROXIMATE'',
            viewport_northeast =
              \<lparr>lat = fadd lat (float_literal (1 / 100)), lng = fadd lon (float_literal (1 / 100))\<rparr>,
            viewport_southwest =
              \<lparr>lat = fsub lat (float_literal (1 / 100)), lng = fsub lon (float_literal (1 / 100))\<rparr>,
            place_id = (case n_place_id result of None \<Rightarrow> PyStr [] | Some v \<Rightarrow> v),
            item_types = split_on (CHR '','') (case n_class result of None \<Rightarrow> [] | Some v \<Rightarrow> v),
            address_components =
              (case n_address result of
                 None \<Rightarrow> []
               | Some kvs \<Rightarrow>
                   map (\<lambda>(component_type, value).
                          \<lparr>long_name = value, short_name = value, component_types = [component_type]\<rparr>)
                     kvs)\<rparr>))"

definition convert_nominatim_to_google_format ::
  "world \<Rightarrow> nominatim_item list \<Rightarrow> exn + geocode_response" where
  "convert_nominatim_to_google_format w nominatim_results =
     (if nominatim_results = [] then Inr \<lparr>status = ''ZERO_RESULTS'', results = []\<rparr>
      else bind_exn (traverse_exn (convert_item w) nominatim_results)
             (\<lambda>google_format_results. Inr \<lparr>status = ''OK'', results = google_format_results\<rparr>))"

definition geocode_nominatim ::
  "world \<Rightarrow> string \<Rightarrow> string option \<Rightarrow> (exn + geocode_response) \<times> event list" where
  "geocode_nominatim w address country =
     (let params = [(''q'', address), (''format'', ''json''), (''addressdetails'', ''1''), (''limit'', ''5'')]
                   @ (if truthy country
                      then [(''countrycodes'', case country of None \<Rightarrow> [] | Some c \<Rightarrow> c)]
                      else []);
          headers = [(''User-Agent'', ''CatastroMCP/1.0'')]
      in (bind_exn (nominatim_json w params) (convert_nominatim_to_google_format w),
          [Sleep 1, HttpGet NOMINATIM_API_URL params headers]))"

text \<open>
  \<open>geocode_address\<close>: only the call of Google is inside the \<open>try\<close>; the call of Nominatim
  that follows it is not.
\<close>

definition geocode_address ::
  "world \<Rightarrow> string option \<Rightarrow> string \<Rightarrow> string option \<Rightarrow> (exn + geocode_response) \<times> event list" where
  "geocode_address w google_api_key address country =
     (if google_api_key \<noteq> None
      then (case geocode_google w google_api_key address country of
              (Inr result, evs) \<Rightarrow>
                if status result = ''OK'' then (Inr result, evs)
                else (case geocode_nominatim w address country of (r, evs') \<Rightarrow> (r, evs @ evs'))
            | (Inl e, evs) \<Rightarrow>
                (case geocode_nominatim w address country of (r, evs') \<Rightarrow> (r, evs @ evs')))
      else geocode_nominatim w address country)"

record location_data =
  coordinates :: latlng
  loc_formatted_address :: string
  loc_address_components :: "(string \<times> string) list"

definition extract_location_data :: "geocode_response \<Rightarrow> location_data result" where
  "extract_location_data geocode_result =
     (if status geocode_result \<noteq> ''OK'' then
        Failure (''No se encontraron resultados para la direcci'' @ [CHR 0xF3] @ ''n proporcionada'')
      else (case results geocode_result of
              [] \<Rightarrow>
                Failure (''No se encontraron resultados para la direcci'' @ [CHR 0xF3] @ ''n proporcionada'')
            | result # _ \<Rightarrow>
                Success
                  \<lparr>coordinates = location result,
                   loc_formatted_address = formatted_address result,
                   loc_address_components =
                     foldl (\<lambda>d component.
                              foldl (\<lambda>d' component_type.
                                       AList.update component_type (long_name component) d')
                                d (component_types component))
                       [] (address_components result)\<rparr>))"

section \<open>The cadastral service (\<open>models/catastro.py\<close>)\<close>

text \<open>
  The state of a \<open>CatastroService\<close>: the path of the data, the key of its geocoder and
  the table \<open>predios_df\<close> (\<open>None\<close> before \<open>load_data\<close>). An operation returns what it
  returns or raises, the state after it, and the requests it made.
\<close>

record catastro_service =
  data_path :: string
  google_api_key :: "string option"
  predios_df :: "dataframe option"

type_synonym 'a run = "(exn + 'a result) \<times> catastro_service \<times> event list"

definition load_data :: "world \<Rightarrow> catastro_service \<Rightarrow> catastro_service" where
  "load_data w self =
     (case read_csv w (data_path self) of
        Inr df \<Rightarrow> self\<lparr>predios_df := Some df\<rparr>
      | Inl e \<Rightarrow> self\<lparr>predios_df := Some empty_frame\<rparr>)"

definition CatastroService :: "world \<Rightarrow> string \<Rightarrow> string option \<Rightarrow> catastro_service" where
  "CatastroService w path key =
     load_data w \<lparr>data_path = path, google_api_key = key, predios_df = None\<rparr>"

definition uso_mapping :: "(string \<times> string) list" where
  "uso_mapping =
     [(''001'', ''Residencial''),
      (''002'', ''Comercial''),
      (''003'', ''Industrial''),
      (''004'', ''Dotacional''),
      (''005'', ''Urbanizado No Edificado''),
      (''006'', ''Urbanizable No Urbanizado''),
      (''007'', ''No Urbanizable''),
      (''008'', ''Rural''),
      (''009'', ''Minero''),
      (''010'', ''Comercial en Corredor Comercial''),
      (''011'', ''Comercial en Centro Comercial''),
      (''012'', ''Dep'' @ [CHR 0xF3] @ ''sitos de Almacenamiento''),
      (''013'', ''Dotacional Privado''),
      (''014'', ''Dotacional P'' @ [CHR 0xFA] @ ''blico''),
      (''015'', ''Urbanizado No Edificado en Desarrollo''),
      (''016'', ''V'' @ [CHR 0xED] @ ''as''),
      (''017'', ''Unidad Residencial''),
      (''018'', ''Unidad Comercial''),
      (''019'', ''Unidad Industrial''),
      (''020'', ''Unidad Dotacional''),
      (''021'', ''Parqueadero Cubierto''),
      (''022'', ''Parqueadero Descubierto''),
      (''023'', ''Bodega''),
      (''024'', ''Garaje Cubierto''),
      (''025'', ''Garaje Descubierto''),
      (''026'', ''Zonas Comunes''),
      (''027'', ''Bien Exclusivo''),
      (''028'', ''Agr'' @ [CHR 0xED] @ ''cola''),
      (''029'', ''Pecuario''),
      (''030'', ''Agroindustrial''),
      (''031'', ''Recreacional''),
      (''032'', ''Habitacional''),
      (''033'', ''Forestal''),
      (''034'', ''Preservaci'' @ [CHR 0xF3] @ ''n Ambiental''),
      (''035'', ''Agr'' @ [CHR 0xED] @ ''cola con Vivienda''),
      (''036'', ''Pecuario con Vivienda''),
      (''037'', ''Agroindustrial con Vivienda''),
      (''038'', ''Recreacional con Vivienda''),
      (''039'', ''Forestal con Vivienda''),
      (''040'', ''Preservaci'' @ [CHR 0xF3] @ ''n Ambiental con Vivienda'')]"

record predio_info =
  chip :: cell
  numero_predial :: cell
  direccion :: cell
  barrio :: cell
  area_terreno :: double
  area_construida :: double
  uso_codigo :: cell
  uso_descripcion :: string
  estrato :: int
  anio_construccion :: cell
  valor_catastral :: double

definition determinar_estrato :: "world \<Rightarrow> series \<Rightarrow> exn + int" where
  "determinar_estrato w predio =
     bind_exn (py_int w (series_get predio ''PREPUNTAJE'' (PyInt 0))) (\<lambda>puntaje.
       Inr (if puntaje < 30 then 1
            else if puntaje < 45 then 2
            else if puntaje < 60 then 3
            else if puntaje < 75 then 4
            else if puntaje < 90 then 5
            else 6))"

definition calcular_valor_catastral :: "world \<Rightarrow> series \<Rightarrow> exn + double" where
  "calcular_valor_catastral w predio =
     bind_exn (py_float w (series_get predio ''PREATERRE'' (PyInt 0))) (\<lambda>area_terreno.
     bind_exn (py_float w (series_get predio ''PREACONST'' (PyInt 0))) (\<lambda>area_construida.
     bind_exn (py_int w (series_get predio ''PREPUNTAJE'' (PyInt 0))) (\<lambda>puntaje.
       let valor_base_m2 = puntaje * 50000 in
       bind_exn (float_times_int area_terreno valor_base_m2) (\<lambda>t.
         let valor_terreno = fmul t (float_literal (3 / 10)) in
         bind_exn (float_times_int area_construida valor_base_m2) (\<lambda>c.
           let valor_construccion = fmul c (float_literal (7 / 10)) in
           py_round2 (fadd valor_terreno valor_construccion))))))"

text \<open>
  \<open>_format_predio_info\<close>: the conversions run inside \<open>try\<close>, in the order of the
  dictionary literal; an exception of theirs becomes a failure result.
\<close>

definition format_predio_info :: "world \<Rightarrow> series \<Rightarrow> predio_info result" where
  "format_predio_info w predio =
     (let uso_codigo = series_get predio ''PRECUSO'' (PyStr []);
          uso_descripcion =
            (case uso_codigo of
               PyStr k \<Rightarrow> (case map_of uso_mapping k of Some d \<Rightarrow> d | None \<Rightarrow> ''Desconocido'')
             | _ \<Rightarrow> ''Desconocido'')
      in case
           bind_exn (py_float w (series_get predio ''PREATERRE'' (PyInt 0))) (\<lambda>area_t.
           bind_exn (py_float w (series_get predio ''PREACONST'' (PyInt 0))) (\<lambda>area_c.
           bind_exn (determinar_estrato w predio) (\<lambda>e.
           bind_exn (calcular_valor_catastral w predio) (\<lambda>v.
             Inr \<lparr>chip = series_get predio ''PRECHIP'' (PyStr []),
                  numero_predial = series_get predio ''PRENUPRE'' (PyStr []),
                  direccion = series_get predio ''PREDIRECC'' (PyStr []),
                  barrio = series_get predio ''PRENBARRIO'' (PyStr []),
                  area_terreno = area_t,
                  area_construida = area_c,
                  uso_codigo = uso_codigo,
                  uso_descripcion = uso_descripcion,
                  estrato = e,
                  anio_construccion = series_get predio ''PREVETUSTZ'' (PyStr []),
                  valor_catastral = v\<rparr>))))
         of Inl e \<Rightarrow> FormatFailure e
          | Inr info \<Rightarrow> Success info)"

definition no_data :: "'a result" where
  "no_data = Failure ''No hay datos catastrales cargados''"

text \<open>
  \<open>frame.iloc[0]\<close>: a row taken as a \<open>Series\<close> has one dtype for all its values, the common
  type of the columns. A column that holds text has dtype \<open>object\<close>, and with such a column
  the values of the row keep their own types. When every column is numeric and one of them
  is \<open>float64\<close>, the row is \<open>float64\<close>: its integers are converted to floats.
\<close>

definition object_frame :: "dataframe \<Rightarrow> bool" where
  "object_frame df \<longleftrightarrow>
     list_ex (\<lambda>r. list_ex (\<lambda>(k, v). case v of PyStr s \<Rightarrow> True | _ \<Rightarrow> False) r) (rows df)"

definition float_frame :: "dataframe \<Rightarrow> bool" where
  "float_frame df \<longleftrightarrow>
     list_ex (\<lambda>r. list_ex (\<lambda>(k, v). case v of PyFloat d \<Rightarrow> True | _ \<Rightarrow> False) r) (rows df)"

definition upcast :: "cell \<Rightarrow> cell" where
  "upcast x = (case x of PyInt n \<Rightarrow> PyFloat (round_to_double (n < 0) (of_int \<bar>n\<bar>)) | _ \<Rightarrow> x)"

definition iloc :: "dataframe \<Rightarrow> nat \<Rightarrow> series" where
  "iloc df i =
     (if \<not> object_frame df \<and> float_frame df
      then map (\<lambda>(k, v). (k, upcast v)) (rows df ! i)
      else rows df ! i)"

text \<open>
  \<open>find_nearest_predio\<close> ignores the coordinates: \<open>sample(1)\<close> draws one row at random,
  with the columns and dtypes of the table.
\<close>

definition find_nearest_predio ::
  "world \<Rightarrow> catastro_service \<Rightarrow> double \<Rightarrow> double \<Rightarrow> predio_info run" where
  "find_nearest_predio w self p_lat p_lon =
     (case predios_df self of
        None \<Rightarrow> (Inr no_data, self, [])
      | Some df \<Rightarrow>
          if df_empty df then (Inr no_data, self, [])
          else (Inr (format_predio_info w (iloc df (random_draw w mod length (rows df)))),
                self, []))"

definition find_predio_by_geocoding ::
  "world \<Rightarrow> catastro_service \<Rightarrow> string \<Rightarrow> predio_info run" where
  "find_predio_by_geocoding w self address =
     (case geocode_address w (google_api_key self) address None of
        (Inl e, evs) \<Rightarrow> (Inl e, self, evs)
      | (Inr geocode_result, evs) \<Rightarrow>
          if status geocode_result \<noteq> ''OK'' \<or> results geocode_result = [] then
            (Inr (Failure (''No se pudo geocodificar la direcci'' @ [CHR 0xF3] @ ''n proporcionada'')),
             self, evs)
          else (case extract_location_data geocode_result of
                  Failure msg \<Rightarrow> (Inr (Failure msg), self, evs)
                | FormatFailure e \<Rightarrow> (Inr (FormatFailure e), self, evs)
                | Success loc \<Rightarrow>
                    (case find_nearest_predio w self (lat (coordinates loc)) (lng (coordinates loc)) of
                       (r, self', evs') \<Rightarrow> (r, self', evs @ evs'))))"

text \<open>
  The element-wise steps of \<open>find_predio_by_address\<close>: \<open>.apply(self._normalize_address)\<close>
  calls \<open>lower\<close> on every stored address, which only text has;
  \<open>.str.contains(pat, regex=False)\<close> is \<open>pat in x\<close> on text, and a mask with an entry that
  is not Boolean cannot index. The two frames of matches hold the text column
  \<open>normalized_address\<close> written just before, so their first row, \<open>.iloc[0]\<close>, keeps the
  type of every value (\<open>with_normalized_object\<close> below).
\<close>

definition apply_normalize :: "cell \<Rightarrow> exn + cell" where
  "apply_normalize x =
     (case x of PyStr a \<Rightarrow> Inr (PyStr (normalize_address a)) | _ \<Rightarrow> Inl AttributeError)"

definition str_contains :: "string \<Rightarrow> cell \<Rightarrow> exn + bool" where
  "str_contains pat x = (case x of PyStr a \<Rightarrow> Inr (sublist pat a) | _ \<Rightarrow> Inl ValueError)"

definition find_predio_by_address ::
  "world \<Rightarrow> catastro_service \<Rightarrow> string \<Rightarrow> predio_info run" where
  "find_predio_by_address w self address =
     (case predios_df self of
        None \<Rightarrow> (Inr no_data, self, [])
      | Some df \<Rightarrow>
          if df_empty df then (Inr no_data, self, [])
          else
            let normalized_address = normalize_address address in
            (case bind_exn (getitem df ''PREDIRECC'') (traverse_exn apply_normalize) of
               Inl e \<Rightarrow> (Inl e, self, [])
             | Inr normalized \<Rightarrow>
                 let df' = setitem df ''normalized_address'' normalized;
                     self' = self\<lparr>predios_df := Some df'\<rparr>
                 in (case getitem df' ''normalized_address'' of
                       Inl e \<Rightarrow> (Inl e, self', [])
                     | Inr col \<Rightarrow>
                         (case boolean_index df' (map (\<lambda>x. x = PyStr normalized_address) col) of
                            predio # _ \<Rightarrow> (Inr (format_predio_info w predio), self', [])
                          | [] \<Rightarrow>
                              (case getitem df' ''normalized_address'' of
                                 Inl e \<Rightarrow> (Inl e, self', [])
                               | Inr col' \<Rightarrow>
                                   (case traverse_exn (str_contains normalized_address) col' of
                                      Inl e \<Rightarrow> (Inl e, self', [])
                                    | Inr flags \<Rightarrow>
                                        (case boolean_index df' flags of
                                           predio # _ \<Rightarrow> (Inr (format_predio_info w predio), self', [])
                                         | [] \<Rightarrow> find_predio_by_geocoding w self' address)))))))"

record poi =
  tipo :: string
  nombre :: string
  distancia :: double
  poi_direccion :: string

definition find_nearby_pois ::
  "world \<Rightarrow> catastro_service \<Rightarrow> double \<Rightarrow> double \<Rightarrow> double \<Rightarrow> poi list run" where
  "find_nearby_pois w self p_lat p_lon radius =
     (let pois =
        [\<lparr>tipo = ''Colegio'', nombre = ''Colegio Distrital'',
          distancia = float_literal (1205 / 10), poi_direccion = ''Calle 65 #10-45''\<rparr>,
         \<lparr>tipo = ''Parque'', nombre = ''Parque Vecinal'',
          distancia = float_literal (2003 / 10), poi_direccion = ''Carrera 11 #66-20''\<rparr>,
         \<lparr>tipo = ''Transporte'', nombre = ''Estaci'' @ [CHR 0xF3] @ ''n Transmilenio'',
          distancia = float_literal (3508 / 10), poi_direccion = ''Avenida Caracas #63-10''\<rparr>,
         \<lparr>tipo = ''Comercio'', nombre = ''Centro Comercial'',
          distancia = float_literal (4502 / 10), poi_direccion = ''Calle 67 #9-30''\<rparr>]
      in (Inr (Success pois), self, []))"

section \<open>Notions used by the statements\<close>

text \<open>
  The stored address of a row, when it is text; a table whose address column exists and
  holds text in every row; the table after \<open>find_predio_by_address\<close> has written its
  column \<open>normalized_address\<close>; a service whose data is missing or empty.
\<close>

definition stored_address :: "series \<Rightarrow> string" where
  "stored_address r = (case series_get r ''PREDIRECC'' (PyFloat NaN) of PyStr a \<Rightarrow> a | _ \<Rightarrow> [])"

definition text_addresses :: "dataframe \<Rightarrow> bool" where
  "text_addresses df \<longleftrightarrow>
     ''PREDIRECC'' \<in> set (columns df) \<and>
     list_all (\<lambda>r. case series_get r ''PREDIRECC'' (PyFloat NaN) of PyStr a \<Rightarrow> True | _ \<Rightarrow> False)
       (rows df)"

definition with_normalized :: "dataframe \<Rightarrow> dataframe" where
  "with_normalized df =
     setitem df ''normalized_address''
       (map (\<lambda>r. PyStr (normalize_address (stored_address r))) (rows df))"

definition data_unavailable :: "catastro_service \<Rightarrow> bool" where
  "data_unavailable self \<longleftrightarrow>
     (case predios_df self of None \<Rightarrow> True | Some df \<Rightarrow> df_empty df)"

text \<open>
  The estimated value in the words of the specification: \<open>base_per_m2 = score * 50000\<close>,
  \<open>land_value = land_area_m2 * base_per_m2 * 0.3\<close>,
  \<open>built_value = built_area_m2 * base_per_m2 * 0.7\<close>, and the sum rounded to two decimal
  places, in float arithmetic.
\<close>

definition estimated_value :: "double \<Rightarrow> double \<Rightarrow> int \<Rightarrow> exn + double" where
  "estimated_value land_area_m2 built_area_m2 score =
     bind_exn (int_to_float (score * 50000)) (\<lambda>base_per_m2.
       let land_value = fmul (fmul land_area_m2 base_per_m2) (float_literal (3 / 10));
           built_value = fmul (fmul built_area_m2 base_per_m2) (float_literal (7 / 10))
       in py_round2 (fadd land_value built_value))"

subsection \<open>Sample data\<close>

text \<open>
  A world without network and without data file, and a table of three parcels: the
  address of the second continues that of the third.
\<close>

definition offline_world :: world where
  "offline_world =
     \<lparr>read_csv = (\<lambda>path. Inl (Raised ''FileNotFoundError'')),
      google_json = (\<lambda>params. Inl (Raised ''ConnectionError'')),
      nominatim_json = (\<lambda>params. Inl (Raised ''ConnectionError'')),
      random_draw = 0,
      float_of_str = (\<lambda>s. Inl ValueError),
      int_of_str = (\<lambda>s. Inl ValueError)\<rparr>"

definition sample_columns :: "string list" where
  "sample_columns =
     [''PRECHIP'', ''PRENUPRE'', ''PREDIRECC'', ''PRENBARRIO'', ''PREATERRE'', ''PREACONST'',
      ''PRECUSO'', ''PREPUNTAJE'', ''PREVETUSTZ'']"

definition sample_row :: "string \<Rightarrow> string \<Rightarrow> rat \<Rightarrow> rat \<Rightarrow> int \<Rightarrow> series" where
  "sample_row c address land built score =
     zip sample_columns
       [PyStr c, PyInt 110010145072100090, PyStr address, PyStr ''LA ESTACION BOSA'',
        PyFloat (float_literal land), PyFloat (float_literal built), PyInt 14, PyInt score,
        PyInt 1990]"

definition sample_frame :: dataframe where
  "sample_frame =
     \<lparr>columns = sample_columns,
      rows = [sample_row ''AAA0045TEMS'' ''CL 65G BIS A SUR 77I 09'' 108 (1759 / 10) 50,
              sample_row ''AAA0045TENX'' ''KR 7 12 34 AP 101'' 72 60 29,
              sample_row ''AAA0045TEOM'' ''KR 7 12 34'' 90 (1205 / 10) 90]\<rparr>"

definition sample_service :: catastro_service where
  "sample_service =
     \<lparr>data_path = ''data/bogota/TPREDIO.csv'', google_api_key = None,
      predios_df = Some sample_frame\<rparr>"

text \<open>A table of one parcel whose score is missing: the field reads as NaN.\<close>

definition nan_score_row :: series where
  "nan_score_row =
     AList.update ''PREPUNTAJE'' (PyFloat NaN)
       (sample_row ''AAA0045TEMS'' ''CL 65G BIS A SUR 77I 09'' 108 (1759 / 10) 50)"

definition nan_score_frame :: dataframe where
  "nan_score_frame = \<lparr>columns = sample_columns, rows = [nan_score_row]\<rparr>"

definition nan_score_service :: catastro_service where
  "nan_score_service =
     \<lparr>data_path = ''data/bogota/TPREDIO.csv'', google_api_key = None,
      predios_df = Some nan_score_frame\<rparr>"

section \<open>Lemmas on strings\<close>

lemma of_char_lt: "(of_char c :: nat) < 256"
  by (cases c) (simp add: of_char_def horner_sum_eq_sum)

lemma lower_char_idem: "lower_char (lower_char c) = lower_char c"
proof -
  have lt: "(of_char c :: nat) < 256" by (rule of_char_lt)
  show ?thesis
    unfolding lower_char_def Let_def
    using lt by (simp add: of_char_of [where ?'a = nat])
qed

lemma lower_char_space: "lower_char (CHR '' '') = CHR '' ''"
  by code_simp

lemma isspace_space: "isspace (CHR '' '')"
  by code_simp

lemma set_replace: "old \<noteq> [] \<Longrightarrow> set (replace old new s) \<subseteq> set s \<union> set new"
proof (induction old new s rule: replace.induct)
  case (1 old new)
  then show ?case by simp
next
  case (2 old new c cs)
  show ?case
  proof (cases "prefix old (c # cs)")
    case True
    have "set (drop (length old) (c # cs)) \<subseteq> set (c # cs)"
      by (rule set_drop_subset)
    with 2 True show ?thesis by auto
  next
    case False
    with 2 show ?thesis by auto
  qed
qed

lemma replace_absent: "old \<noteq> [] \<Longrightarrow> \<not> sublist old s \<Longrightarrow> replace old new s = s"
proof (induction s)
  case Nil
  then show ?case by simp
next
  case (Cons c cs)
  from Cons.prems(2) have np: "\<not> prefix old (c # cs)" and ns: "\<not> sublist old cs"
    by (simp_all add: sublist_Cons_right)
  from Cons.IH [OF Cons.prems(1) ns] np Cons.prems(1) show ?case by simp
qed

lemma replace_single_del: "replace [c] [] s = filter (\<lambda>x. x \<noteq> c) s"
  by (induction s) auto

lemma replace_single_sub: "replace [c] [d] s = map (\<lambda>x. if x = c then d else x) s"
  by (induction s) auto

lemma set_sub_ws: "set (sub_ws s) \<subseteq> insert (CHR '' '') (set s)"
proof (induction s rule: sub_ws.induct)
  case 1
  show ?case by simp
next
  case (2 c cs)
  have "set (dropWhile isspace cs) \<subseteq> set cs"
    by (rule set_dropWhileD [THEN subsetI])
  with 2 show ?case by auto
qed

lemma set_strip: "set (strip s) \<subseteq> set s"
proof -
  have "set (dropWhile isspace (rev (dropWhile isspace s))) \<subseteq> set (rev (dropWhile isspace s))"
    by (rule set_dropWhileD [THEN subsetI])
  also have "\<dots> \<subseteq> set s"
    using set_dropWhileD [of _ isspace s] by auto
  finally show ?thesis by (simp add: strip_def)
qed

lemma lowered_lower: "lowered (lower s)"
  by (simp add: lowered_def lower_def lower_char_idem)

lemma lowered_fix: "lowered s \<Longrightarrow> lower s = s"
  by (simp add: lowered_def lower_def map_idI)

lemma lowered_subset: "lowered s \<Longrightarrow> set t \<subseteq> set s \<Longrightarrow> lowered t"
  by (auto simp: lowered_def)

lemma lowered_sub_ws: "lowered s \<Longrightarrow> lowered (sub_ws s)"
  using set_sub_ws [of s] by (auto simp: lowered_def lower_char_space)

lemma lowered_strip: "lowered s \<Longrightarrow> lowered (strip s)"
  using set_strip [of s] by (auto simp: lowered_def)

lemma lowered_replace: "old \<noteq> [] \<Longrightarrow> lowered new \<Longrightarrow> lowered s \<Longrightarrow> lowered (replace old new s)"
  using set_replace [of old new s] by (auto simp: lowered_def)

lemma lowered_apply:
  "list_all (\<lambda>(old, new). old \<noteq> [] \<and> lowered new) table \<Longrightarrow> lowered s \<Longrightarrow>
   lowered (apply_replacements table s)"
  unfolding apply_replacements_def
  by (induction table arbitrary: s) (auto simp: lowered_replace)

lemma replacements_lowered: "list_all (\<lambda>(old, new). old \<noteq> [] \<and> lowered new) replacements"
  unfolding replacements_def lowered_def by (simp add: lower_char_def)

lemma lowered_normalize: "lowered (normalize_address x)"
  unfolding normalize_address_def
  by (intro lowered_apply replacements_lowered lowered_strip lowered_sub_ws lowered_lower)

lemma apply_key_free:
  "list_all (\<lambda>(old, new). old \<noteq> []) table \<Longrightarrow> key_free table s \<Longrightarrow> apply_replacements table s = s"
  unfolding apply_replacements_def key_free_def
  by (induction table) (auto simp: replace_absent)

lemma sub_ws_clean:
  "list_all (\<lambda>c. isspace c \<longrightarrow> c = CHR '' '') s \<Longrightarrow> \<not> sublist ''  '' s \<Longrightarrow> sub_ws s = s"
proof (induction s rule: sub_ws.induct)
  case 1
  show ?case by simp
next
  case (2 c cs)
  have ns: "\<not> sublist ''  '' cs" using 2(4) by (simp add: sublist_Cons_right)
  have all: "list_all (\<lambda>c. isspace c \<longrightarrow> c = CHR '' '') cs" using 2(3) by simp
  show ?case
  proof (cases "isspace c")
    case True
    then have c: "c = CHR '' ''" using 2(3) by simp
    have dw: "dropWhile isspace cs = cs"
    proof (cases cs)
      case Nil
      then show ?thesis by simp
    next
      case (Cons d ds)
      have "\<not> isspace d"
      proof
        assume "isspace d"
        then have "d = CHR '' ''" using all Cons by simp
        then have "prefix ''  '' (c # cs)" using c Cons by simp
        then have "sublist ''  '' (c # cs)" by (rule prefix_imp_sublist)
        with 2(4) show False by (rule notE)
      qed
      then show ?thesis using Cons by simp
    qed
    from 2(1) [OF True] all ns dw have "sub_ws cs = cs" by simp
    then show ?thesis using True c dw by simp
  next
    case False
    from 2(2) [OF False all ns] False show ?thesis by simp
  qed
qed

lemma dropWhile_clean:
  "list_all (\<lambda>c. isspace c \<longrightarrow> c = CHR '' '') s \<Longrightarrow> \<not> prefix '' '' s \<Longrightarrow> dropWhile isspace s = s"
  by (cases s) auto

lemma strip_clean:
  assumes "list_all (\<lambda>c. isspace c \<longrightarrow> c = CHR '' '') s" "\<not> prefix '' '' s" "\<not> suffix '' '' s"
  shows "strip s = s"
proof -
  have 1: "dropWhile isspace s = s" using assms(1,2) by (rule dropWhile_clean)
  have a: "list_all (\<lambda>c. isspace c \<longrightarrow> c = CHR '' '') (rev s)" using assms(1) by (simp add: list_all_iff)
  have b: "\<not> prefix '' '' (rev s)"
    using assms(3) by (metis rev_rev_ident singleton_rev_conv suffix_to_prefix)
  have 2: "dropWhile isspace (rev s) = rev s" using a b by (rule dropWhile_clean)
  show ?thesis by (simp add: strip_def 1 2)
qed

lemma replacements_keys: "list_all (\<lambda>(old, new). old \<noteq> []) replacements"
  by (simp add: replacements_def)

section \<open>Lemmas on floats\<close>

text \<open>Rewrite rules that evaluate the float operations on numerals.\<close>

lemma bit_length_0: "bit_length 0 = 0"
  by (simp add: bit_length.simps)

lemma bit_length_1: "bit_length 1 = 1"
  by (simp add: bit_length.simps)

lemma bit_length_numeral: "bit_length (numeral k) = 1 + bit_length (numeral k div 2)"
  by (subst bit_length.simps) simp

lemma floor_rat_numeral: "\<lfloor>numeral a / numeral b :: rat\<rfloor> = numeral a div numeral b"
  using floor_divide_of_int_eq [of "numeral a" "numeral b", where ?'a = rat] by simp

lemma ceiling_rat_numeral: "\<lceil>numeral a / numeral b :: rat\<rceil> = - (- numeral a div numeral b)"
  using floor_divide_of_int_eq [of "- numeral a" "numeral b", where ?'a = rat]
  by (simp add: ceiling_def)

text \<open>The exponent that \<open>round_to_double\<close> takes from \<open>ilog2\<close> is the right one.\<close>

lemma bit_length_nonneg: "0 \<le> bit_length n"
proof (induction n rule: bit_length.induct)
  case (1 n)
  then show ?case by (subst bit_length.simps) simp
qed

lemma bit_length_step: "0 < n \<Longrightarrow> bit_length n = 1 + bit_length (n div 2)"
  by (subst bit_length.simps) simp

lemma bit_length_pos: "0 < n \<Longrightarrow> 0 < bit_length n"
  using bit_length_nonneg [of "n div 2"] by (simp add: bit_length_step)

lemma bit_length_bounds:
  "0 < n \<Longrightarrow> 2 ^ nat (bit_length n - 1) \<le> n \<and> n < 2 ^ nat (bit_length n)"
proof (induction n rule: bit_length.induct)
  case (1 n)
  show ?case
  proof (cases "n = 1")
    case True
    then show ?thesis by (simp add: bit_length_1)
  next
    case False
    with 1(2) have h: "0 < n div 2" by simp
    have bl: "bit_length n = 1 + bit_length (n div 2)"
      using 1(2) by (rule bit_length_step)
    from 1(1) h 1(2) have ih1: "2 ^ nat (bit_length (n div 2) - 1) \<le> n div 2"
      and ih2: "n div 2 < 2 ^ nat (bit_length (n div 2))" by simp_all
    have p: "0 < bit_length (n div 2)" using h by (rule bit_length_pos)
    have e1: "nat (bit_length n - 1) = Suc (nat (bit_length (n div 2) - 1))"
      using p bl by simp
    have e2: "nat (bit_length n) = Suc (nat (bit_length (n div 2)))"
      using p bl by simp
    have lo: "2 * (n div 2) \<le> n" by simp
    have hi: "n < 2 * (n div 2 + 1)" by presburger
    have a: "(2::int) * 2 ^ nat (bit_length (n div 2) - 1) \<le> n"
      using ih1 lo by linarith
    have "n div 2 + 1 \<le> 2 ^ nat (bit_length (n div 2))" using ih2 by simp
    then have b: "n < 2 * 2 ^ nat (bit_length (n div 2))" using hi by linarith
    from a b show ?thesis unfolding e1 e2 by simp
  qed
qed

lemma pow2_nat: "0 \<le> k \<Longrightarrow> pow2 k = of_int (2 ^ nat k)"
  by (simp add: pow2_def)

lemma pow2_pos: "0 < pow2 k"
  by (simp add: pow2_def)

lemma pow2_neg: "pow2 (- k) = 1 / pow2 k"
  by (cases "k = 0") (auto simp: pow2_def)

lemma ilog2_bounds:
  assumes "0 < q"
  shows "pow2 (ilog2 q) \<le> q \<and> q < pow2 (ilog2 q + 1)"
proof (cases "1 \<le> q")
  case True
  let ?n = "\<lfloor>q\<rfloor>"
  have n: "0 < ?n" using True by simp
  have e: "ilog2 q = bit_length ?n - 1" using True by (simp add: ilog2_def)
  have p: "0 \<le> bit_length ?n - 1" using bit_length_pos [OF n] by simp
  from bit_length_bounds [OF n]
  have lo: "2 ^ nat (bit_length ?n - 1) \<le> ?n" and hi: "?n < 2 ^ nat (bit_length ?n)" by simp_all
  have "pow2 (bit_length ?n - 1) = of_int (2 ^ nat (bit_length ?n - 1))"
    using p by (rule pow2_nat)
  also have "\<dots> \<le> of_int ?n" using lo by (simp only: of_int_le_iff)
  also have "\<dots> \<le> q" by simp
  finally have 1: "pow2 (ilog2 q) \<le> q" by (simp add: e)
  have "?n + 1 \<le> 2 ^ nat (bit_length ?n)" using hi by simp
  then have "(of_int (?n + 1) :: rat) \<le> of_int (2 ^ nat (bit_length ?n))"
    by (simp only: of_int_le_iff)
  moreover have "q < of_int (?n + 1)" by linarith
  moreover have "pow2 (bit_length ?n) = of_int (2 ^ nat (bit_length ?n))"
    using bit_length_nonneg by (rule pow2_nat)
  ultimately have 2: "q < pow2 (ilog2 q + 1)" by (simp add: e)
  from 1 2 show ?thesis by simp
next
  case False
  let ?m = "\<lceil>1 / q\<rceil> - 1"
  let ?j = "bit_length ?m"
  have q1: "q < 1" using False by simp
  have inv: "1 < 1 / q" using assms q1 by simp
  have m: "0 < ?m" using inv by linarith
  have e: "ilog2 q = - ?j" using False by (simp add: ilog2_def)
  have jp: "0 < ?j" using m by (rule bit_length_pos)
  from bit_length_bounds [OF m]
  have lo: "2 ^ nat (?j - 1) \<le> ?m" and hi: "?m < 2 ^ nat ?j" by simp_all
  have pj: "pow2 ?j = of_int (2 ^ nat ?j)" using bit_length_nonneg by (rule pow2_nat)
  have pj1: "pow2 (?j - 1) = of_int (2 ^ nat (?j - 1))" using jp by (intro pow2_nat) simp
  have c1: "\<lceil>1 / q\<rceil> \<le> 2 ^ nat ?j" using hi by simp
  have "1 / q \<le> of_int \<lceil>1 / q\<rceil>" by (rule le_of_int_ceiling)
  also have "\<dots> \<le> of_int (2 ^ nat ?j)" using c1 by (simp only: of_int_le_iff)
  also have "\<dots> = pow2 ?j" by (simp only: pj)
  finally have up: "1 / q \<le> pow2 ?j" .
  have "pow2 (?j - 1) = of_int (2 ^ nat (?j - 1))" by (rule pj1)
  also have "\<dots> \<le> of_int ?m" using lo by (simp only: of_int_le_iff)
  also have "\<dots> < 1 / q" by linarith
  finally have dn: "pow2 (?j - 1) < 1 / q" .
  have 1: "pow2 (- ?j) \<le> q"
  proof -
    have "1 \<le> pow2 ?j * q" using up assms by (simp add: field_simps)
    then show ?thesis using pow2_pos [of ?j] by (simp add: pow2_neg field_simps)
  qed
  have 2: "q < pow2 (- ?j + 1)"
  proof -
    have "pow2 (?j - 1) * q < 1" using dn assms by (simp add: field_simps)
    moreover have "- ?j + 1 = - (?j - 1)" by simp
    ultimately show ?thesis using pow2_pos [of "?j - 1"]
      by (simp only: pow2_neg) (simp add: field_simps)
  qed
  from 1 2 show ?thesis by (simp add: e)
qed

lemmas float_eval = float_literal_def round_to_double_def ilog2_def pow2_def
  bit_length_0 bit_length_1 bit_length_numeral round_half_even_def Let_def
  floor_rat_numeral ceiling_rat_numeral

lemma literal_108: "float_literal 108 = Finite False 108"
  by (simp add: float_eval)

lemma literal_175_9: "float_literal (1759 / 10) = Finite False (6188931050425549 / 35184372088832)"
  by (simp add: float_eval)

lemma literal_0_3: "float_literal (3 / 10) = Finite False (5404319552844595 / 18014398509481984)"
  by (simp add: float_eval)

lemma literal_0_7: "float_literal (7 / 10) = Finite False (3152519739159347 / 4503599627370496)"
  by (simp add: float_eval)

lemma base_2500000: "int_to_float (50 * 50000) = Inr (Finite False 2500000)"
  by (simp add: int_to_float_def float_eval)

lemma land_total: "fmul (Finite False 108) (Finite False 2500000) = Finite False 270000000"
  by (simp add: float_eval)

lemma land_value: "fmul (Finite False 270000000) (Finite False (5404319552844595 / 18014398509481984))
                   = Finite False 81000000"
  by (simp add: float_eval)

lemma built_total: "fmul (Finite False (6188931050425549 / 35184372088832)) (Finite False 2500000)
                    = Finite False 439750000"
  by (simp add: float_eval)

lemma built_value: "fmul (Finite False 439750000) (Finite False (3152519739159347 / 4503599627370496))
                    = Finite False 307825000"
  by (simp add: float_eval)

lemma total_value: "fadd (Finite False 81000000) (Finite False 307825000) = Finite False 388825000"
  by (simp add: float_eval)

lemma rounded_value: "py_round2 (Finite False 388825000) = Inr (Finite False 388825000)"
  by (simp add: float_eval)

lemma estimated_value_example:
  "estimated_value (float_literal 108) (float_literal (1759 / 10)) 50 = Inr (Finite False 388825000)"
  by (simp only: estimated_value_def base_2500000 bind_exn_def sum.case Let_def literal_108
      literal_175_9 literal_0_3 literal_0_7 land_total land_value built_total built_value
      total_value rounded_value)

lemma calcular_valor_catastral_eq:
  assumes "series_get predio ''PREATERRE'' (PyInt 0) = PyFloat land"
    and "series_get predio ''PREACONST'' (PyInt 0) = PyFloat built"
    and "series_get predio ''PREPUNTAJE'' (PyInt 0) = PyInt score"
  shows "calcular_valor_catastral w predio = estimated_value land built score"
  by (simp add: calcular_valor_catastral_def estimated_value_def assms py_float_def py_int_def
      bind_exn_def float_times_int_def Let_def split: sum.splits)

section \<open>Lemmas on the table and the matcher\<close>

lemma series_get_update_same: "series_get (AList.update k v r) k d = v"
  by (simp add: series_get_def update_conv')

lemma series_get_update_other: "k' \<noteq> k \<Longrightarrow> series_get (AList.update k v r) k' d = series_get r k' d"
  by (simp add: series_get_def update_conv')

lemma determinar_estrato_update:
  "determinar_estrato w (AList.update ''normalized_address'' v r) = determinar_estrato w r"
  by (simp add: determinar_estrato_def series_get_update_other)

lemma calcular_valor_catastral_update:
  "calcular_valor_catastral w (AList.update ''normalized_address'' v r) = calcular_valor_catastral w r"
  by (simp add: calcular_valor_catastral_def series_get_update_other)

lemma format_predio_info_update:
  "format_predio_info w (AList.update ''normalized_address'' v r) = format_predio_info w r"
  by (simp add: format_predio_info_def series_get_update_other determinar_estrato_update
      calcular_valor_catastral_update)

lemma apply_normalize_text:
  assumes "list_all (\<lambda>r. case series_get r ''PREDIRECC'' (PyFloat NaN) of PyStr a \<Rightarrow> True | _ \<Rightarrow> False) rs"
  shows "traverse_exn apply_normalize (map (\<lambda>r. series_get r ''PREDIRECC'' (PyFloat NaN)) rs) =
         Inr (map (\<lambda>r. PyStr (normalize_address (stored_address r))) rs)"
  using assms
  by (induction rs) (auto simp: apply_normalize_def stored_address_def split: cell.splits)

lemma str_contains_text:
  "traverse_exn (str_contains q) (map (\<lambda>r. PyStr (f r)) rs) = Inr (map (\<lambda>r. sublist q (f r)) rs)"
  by (induction rs) (simp_all add: str_contains_def)

lemma zip_map_self: "zip xs (map f xs) = map (\<lambda>x. (x, f x)) xs"
  by (induction xs) simp_all

lemma rows_with_normalized:
  "rows (with_normalized df) =
     map (\<lambda>r. AList.update ''normalized_address'' (PyStr (normalize_address (stored_address r))) r)
       (rows df)"
  by (simp add: with_normalized_def setitem_def zip_map_self o_def)

lemma columns_with_normalized:
  "columns (with_normalized df) =
     (if ''normalized_address'' \<in> set (columns df) then columns df
      else columns df @ [''normalized_address''])"
  by (simp add: with_normalized_def setitem_def)

text \<open>Writing the normalised column changes no other column and no row count.\<close>

lemma with_normalized_other_columns:
  "k \<noteq> ''normalized_address'' \<Longrightarrow>
   map (\<lambda>r. series_get r k d) (rows (with_normalized df)) = map (\<lambda>r. series_get r k d) (rows df)"
  by (simp add: rows_with_normalized o_def series_get_update_other)

lemma with_normalized_keeps_columns: "set (columns df) \<subseteq> set (columns (with_normalized df))"
  by (auto simp: columns_with_normalized)

lemma with_normalized_length: "length (rows (with_normalized df)) = length (rows df)"
  by (simp add: rows_with_normalized)

text \<open>The table with the normalised column holds text, so its rows keep their types.\<close>

lemma update_member: "(k, v) \<in> set (AList.update k v al)"
  by (induction al) auto

lemma with_normalized_object:
  assumes "rows df \<noteq> []"
  shows "object_frame (with_normalized df)"
proof -
  from assms obtain a rs where r: "rows df = a # rs" by (cases "rows df") auto
  let ?v = "PyStr (normalize_address (stored_address a))"
  have "(''normalized_address'', ?v) \<in> set (AList.update ''normalized_address'' ?v a)"
    by (rule update_member)
  then have "list_ex (\<lambda>(k, v). case v of PyStr s \<Rightarrow> True | _ \<Rightarrow> False)
               (AList.update ''normalized_address'' ?v a)"
    unfolding list_ex_iff by (rule bexI [rotated]) simp
  then show ?thesis
    by (simp add: object_frame_def rows_with_normalized r)
qed

lemma iloc_with_normalized:
  "rows df \<noteq> [] \<Longrightarrow> iloc (with_normalized df) i = rows (with_normalized df) ! i"
  by (simp add: iloc_def with_normalized_object)

lemma getitem_with_normalized:
  "getitem (with_normalized df) ''normalized_address'' =
     Inr (map (\<lambda>r. PyStr (normalize_address (stored_address r))) (rows df))"
proof -
  have "''normalized_address'' \<in> set (columns (with_normalized df))"
    by (simp add: with_normalized_def setitem_def)
  then show ?thesis
    by (simp add: getitem_def rows_with_normalized o_def series_get_update_same)
qed

lemma boolean_index_map:
  "map fst (filter snd (zip (map g rs) (map p rs))) = map g (filter p rs)"
  by (induction rs) simp_all

lemma boolean_index_with_normalized:
  "boolean_index (with_normalized df) (map p (rows df)) =
     map (\<lambda>r. AList.update ''normalized_address'' (PyStr (normalize_address (stored_address r))) r)
       (filter p (rows df))"
  by (simp add: boolean_index_def rows_with_normalized boolean_index_map)

lemma case_filter_find:
  "(case map g (filter p xs) of [] \<Rightarrow> b | y # ys \<Rightarrow> a y) =
   (case find p xs of None \<Rightarrow> b | Some x \<Rightarrow> a (g x))"
  by (induction xs) simp_all

lemma find_always: "xs \<noteq> [] \<Longrightarrow> find (\<lambda>x. True) xs = Some (hd xs)"
  by (cases xs) simp_all

lemma find_never: "\<forall>x\<in>set xs. \<not> P x \<Longrightarrow> find P xs = None"
  by (induction xs) simp_all

text \<open>
  What \<open>find_predio_by_address\<close> computes on a table that is not empty and whose addresses
  are text: \<open>find\<close> gives the first row, in the order of the table, that passes a test.
\<close>

lemma find_predio_by_address_unfold:
  assumes df: "predios_df self = Some df" and ne: "\<not> df_empty df" and tx: "text_addresses df"
  shows "find_predio_by_address w self address =
     (case find (\<lambda>r. normalize_address (stored_address r) = normalize_address address) (rows df) of
        Some r \<Rightarrow> (Inr (format_predio_info w r), self\<lparr>predios_df := Some (with_normalized df)\<rparr>, [])
      | None \<Rightarrow>
         (case find (\<lambda>r. sublist (normalize_address address) (normalize_address (stored_address r)))
                 (rows df) of
            Some r \<Rightarrow>
              (Inr (format_predio_info w r), self\<lparr>predios_df := Some (with_normalized df)\<rparr>, [])
          | None \<Rightarrow>
              find_predio_by_geocoding w (self\<lparr>predios_df := Some (with_normalized df)\<rparr>) address))"
proof -
  let ?q = "normalize_address address"
  let ?norm = "map (\<lambda>r. PyStr (normalize_address (stored_address r))) (rows df)"
  have col: "bind_exn (getitem df ''PREDIRECC'') (traverse_exn apply_normalize) = Inr ?norm"
    using tx by (simp add: text_addresses_def getitem_def bind_exn_def apply_normalize_text)
  have wn: "setitem df ''normalized_address'' ?norm = with_normalized df"
    by (simp add: with_normalized_def)
  have eqm: "map (\<lambda>x. x = PyStr ?q) ?norm =
             map (\<lambda>r. normalize_address (stored_address r) = ?q) (rows df)"
    by (simp add: o_def)
  have cont: "traverse_exn (str_contains ?q) ?norm =
              Inr (map (\<lambda>r. sublist ?q (normalize_address (stored_address r))) (rows df))"
    by (rule str_contains_text)
  show ?thesis
    unfolding find_predio_by_address_def
    by (simp only: df ne col wn Let_def option.case sum.case if_False getitem_with_normalized
        eqm cont boolean_index_with_normalized case_filter_find format_predio_info_update)
qed

text \<open>
  Outside these tables the call raises before it matches anything: AttributeError when a
  stored address is not text (NaN for a missing field, a number), KeyError when the column
  is missing.
\<close>

lemma apply_normalize_non_text:
  assumes "\<not> list_all (\<lambda>r. case series_get r ''PREDIRECC'' (PyFloat NaN) of PyStr a \<Rightarrow> True | _ \<Rightarrow> False) rs"
  shows "traverse_exn apply_normalize (map (\<lambda>r. series_get r ''PREDIRECC'' (PyFloat NaN)) rs) =
         Inl AttributeError"
  using assms
  by (induction rs) (auto simp: apply_normalize_def split: cell.splits sum.splits)

lemma find_predio_by_address_non_text:
  assumes "predios_df self = Some df" and "\<not> df_empty df" and "''PREDIRECC'' \<in> set (columns df)"
    and "\<not> text_addresses df"
  shows "find_predio_by_address w self address = (Inl AttributeError, self, [])"
proof -
  have "\<not> list_all (\<lambda>r. case series_get r ''PREDIRECC'' (PyFloat NaN) of PyStr a \<Rightarrow> True | _ \<Rightarrow> False)
            (rows df)"
    using assms(3,4) by (simp add: text_addresses_def)
  then have "bind_exn (getitem df ''PREDIRECC'') (traverse_exn apply_normalize) = Inl AttributeError"
    using assms(3) by (simp add: getitem_def bind_exn_def apply_normalize_non_text)
  then show ?thesis
    by (simp add: find_predio_by_address_def assms(1,2))
qed

lemma find_predio_by_address_no_column:
  assumes "predios_df self = Some df" and "\<not> df_empty df" and "''PREDIRECC'' \<notin> set (columns df)"
  shows "find_predio_by_address w self address = (Inl KeyError, self, [])"
  using assms by (simp add: find_predio_by_address_def getitem_def bind_exn_def)

text \<open>The geocoding fallback always makes a request; the two other operations leave the state alone.\<close>

lemma geocode_nominatim_events: "snd (geocode_nominatim w a c) \<noteq> []"
  by (simp add: geocode_nominatim_def Let_def)

lemma geocode_address_events: "snd (geocode_address w k a c) \<noteq> []"
  by (auto simp: geocode_address_def geocode_google_def Let_def geocode_nominatim_events
      split: prod.splits sum.splits)

lemma find_predio_by_geocoding_events: "snd (snd (find_predio_by_geocoding w self a)) \<noteq> []"
  using geocode_address_events [of w "google_api_key self" a None]
  by (auto simp: find_predio_by_geocoding_def split: prod.splits sum.splits result.splits)

lemma find_nearest_predio_state: "fst (snd (find_nearest_predio w self la lo)) = self"
  by (simp add: find_nearest_predio_def split: option.splits)

lemma find_nearby_pois_state: "fst (snd (find_nearby_pois w self la lo radius)) = self"
  by (simp add: find_nearby_pois_def Let_def)

text \<open>The two operations that do not geocode always return a result.\<close>

lemma find_nearest_predio_returns: "\<exists>r. fst (find_nearest_predio w self la lo) = Inr r"
  by (simp add: find_nearest_predio_def split: option.splits)

lemma find_nearby_pois_returns: "\<exists>pois. fst (find_nearby_pois w self la lo radius) = Inr (Success pois)"
  by (simp add: find_nearby_pois_def Let_def)

text \<open>An exception of the Google request is caught: the answer is that of Nominatim.\<close>

lemma geocode_address_google_raises:
  "google_json w ([(''address'', a), (''key'', k)] @
       (if truthy c then [(''components'', ''country:'' @ (case c of None \<Rightarrow> [] | Some x \<Rightarrow> x))] else []))
     = Inl e \<Longrightarrow>
   fst (geocode_address w (Some k) a c) = fst (geocode_nominatim w a c)"
  by (simp add: geocode_address_def geocode_google_def Let_def split: prod.splits)

text \<open>An exception of the Nominatim request is not caught.\<close>

lemma geocode_address_nominatim_raises:
  "nominatim_json w [(''q'', a), (''format'', ''json''), (''addressdetails'', ''1''), (''limit'', ''5'')]
     = Inl e \<Longrightarrow>
   fst (geocode_address w None a None) = Inl e"
  by (simp add: geocode_address_def geocode_nominatim_def truthy_def bind_exn_def Let_def)

text \<open>A table that could not be read leaves the service without data.\<close>

lemma load_failure_unavailable:
  "read_csv w path = Inl e \<Longrightarrow> data_unavailable (CatastroService w path key)"
  by (simp add: CatastroService_def load_data_def data_unavailable_def df_empty_def empty_frame_def)

text \<open>
  \<open>_format_predio_info\<close> succeeds exactly when the estimated value of the row can be
  computed; otherwise it returns the failure that carries the exception.
\<close>

lemma format_predio_info_failure:
  "calcular_valor_catastral w r = Inl e \<Longrightarrow> format_predio_info w r = FormatFailure e"
  by (auto simp: format_predio_info_def calcular_valor_catastral_def determinar_estrato_def
      bind_exn_def Let_def split: sum.splits)

lemma format_predio_info_success:
  "calcular_valor_catastral w r = Inr v \<Longrightarrow>
   \<exists>info. format_predio_info w r = Success info \<and> valor_catastral info = v"
  by (auto simp: format_predio_info_def calcular_valor_catastral_def determinar_estrato_def
      bind_exn_def Let_def split: sum.splits)

text \<open>The query that normalises to the empty string, on a table none of whose addresses does.\<close>

lemma empty_query_unfold:
  assumes "predios_df self = Some df" and "\<not> df_empty df" and "text_addresses df"
    and "\<forall>r\<in>set (rows df). normalize_address (stored_address r) \<noteq> []"
    and "normalize_address address = []"
  shows "find_predio_by_address w self address =
           (Inr (format_predio_info w (hd (rows df))),
            self\<lparr>predios_df := Some (with_normalized df)\<rparr>, [])"
proof -
  have ne: "rows df \<noteq> []" using assms(2) by (simp add: df_empty_def)
  have ex: "find (\<lambda>r. normalize_address (stored_address r) = normalize_address address) (rows df) = None"
    using assms(4,5) by (simp add: find_never)
  have pa: "find (\<lambda>r. sublist (normalize_address address) (normalize_address (stored_address r))) (rows df)
            = Some (hd (rows df))"
    using ne by (simp add: assms(5) find_always)
  show ?thesis
    using find_predio_by_address_unfold [OF assms(1,2,3), of w address] by (simp add: ex pa)
qed

text \<open>A row of a numeric table read with \<open>iloc\<close>: the parcel number becomes a float.\<close>

lemma iloc_numeric_row:
  "iloc \<lparr>columns = [''PRENUPRE'', ''PREATERRE''],
         rows = [[(''PRENUPRE'', PyInt 110010145072100090), (''PREATERRE'', PyFloat (Finite False 108))]]\<rparr> 0
   = [(''PRENUPRE'', PyFloat (Finite False 110010145072100096)), (''PREATERRE'', PyFloat (Finite False 108))]"
  by (simp add: iloc_def object_frame_def float_frame_def upcast_def float_eval)

subsection \<open>The sample data\<close>

lemma sample_row_get:
  "series_get (sample_row c a l b s) ''PRECHIP'' d = PyStr c"
  "series_get (sample_row c a l b s) ''PRENUPRE'' d = PyInt 110010145072100090"
  "series_get (sample_row c a l b s) ''PREDIRECC'' d = PyStr a"
  "series_get (sample_row c a l b s) ''PRENBARRIO'' d = PyStr ''LA ESTACION BOSA''"
  "series_get (sample_row c a l b s) ''PREATERRE'' d = PyFloat (float_literal l)"
  "series_get (sample_row c a l b s) ''PREACONST'' d = PyFloat (float_literal b)"
  "series_get (sample_row c a l b s) ''PRECUSO'' d = PyInt 14"
  "series_get (sample_row c a l b s) ''PREPUNTAJE'' d = PyInt s"
  "series_get (sample_row c a l b s) ''PREVETUSTZ'' d = PyInt 1990"
  by (simp_all add: sample_row_def sample_columns_def series_get_def)

lemma stored_address_sample_row: "stored_address (sample_row c a l b s) = a"
  by (simp add: stored_address_def sample_row_def sample_columns_def series_get_def)

lemma rows_sample_frame:
  "rows sample_frame =
     [sample_row ''AAA0045TEMS'' ''CL 65G BIS A SUR 77I 09'' 108 (1759 / 10) 50,
      sample_row ''AAA0045TENX'' ''KR 7 12 34 AP 101'' 72 60 29,
      sample_row ''AAA0045TEOM'' ''KR 7 12 34'' 90 (1205 / 10) 90]"
  by (simp add: sample_frame_def)

lemma text_addresses_sample_frame: "text_addresses sample_frame"
  by (simp add: text_addresses_def rows_sample_frame)
     (simp add: sample_frame_def sample_row_def sample_columns_def series_get_def)

lemma sample_normal_forms:
  "normalize_address ''CL 65G BIS A SUR 77I 09'' = ''cl 65g bis a s 77i 09''"
  "normalize_address ''KR 7 12 34 AP 101'' = ''kr 7 12 34 ap 101''"
  "normalize_address ''KR 7 12 34'' = ''kr 7 12 34''"
  "normalize_address ''Carrera 7 12 34'' = ''kr 7 12 34''"
  by code_simp+

lemma sample_sublists:
  "\<not> sublist ''kr 7 12 34'' ''cl 65g bis a s 77i 09''"
  "sublist ''kr 7 12 34'' ''kr 7 12 34 ap 101''"
  by code_simp+

lemma format_predio_info_sample:
  "format_predio_info w (sample_row ''AAA0045TEMS'' ''CL 65G BIS A SUR 77I 09'' 108 (1759 / 10) 50) =
     Success
       \<lparr>chip = PyStr ''AAA0045TEMS'',
        numero_predial = PyInt 110010145072100090,
        direccion = PyStr ''CL 65G BIS A SUR 77I 09'',
        barrio = PyStr ''LA ESTACION BOSA'',
        area_terreno = Finite False 108,
        area_construida = Finite False (6188931050425549 / 35184372088832),
        uso_codigo = PyInt 14,
        uso_descripcion = ''Desconocido'',
        estrato = 3,
        anio_construccion = PyInt 1990,
        valor_catastral = Finite False 388825000\<rparr>"
proof -
  let ?r = "sample_row ''AAA0045TEMS'' ''CL 65G BIS A SUR 77I 09'' 108 (1759 / 10) 50"
  have v: "calcular_valor_catastral w ?r = Inr (Finite False 388825000)"
    using calcular_valor_catastral_eq [of ?r "float_literal 108" "float_literal (1759 / 10)" 50 w]
    by (simp add: sample_row_get estimated_value_example)
  have e: "determinar_estrato w ?r = Inr 3"
    by (simp add: determinar_estrato_def sample_row_get py_int_def bind_exn_def)
  show ?thesis
    by (simp add: format_predio_info_def sample_row_get py_float_def bind_exn_def v e
        literal_108 literal_175_9)
qed

lemma nan_score_row_get:
  "series_get nan_score_row ''PREPUNTAJE'' d = PyFloat NaN"
  "series_get nan_score_row ''PREDIRECC'' d = PyStr ''CL 65G BIS A SUR 77I 09''"
  "series_get nan_score_row ''PREATERRE'' d = PyFloat (float_literal 108)"
  "series_get nan_score_row ''PREACONST'' d = PyFloat (float_literal (1759 / 10))"
  by (simp_all add: nan_score_row_def series_get_update_same series_get_update_other sample_row_get)

lemma format_predio_info_nan_score:
  "format_predio_info w nan_score_row = FormatFailure ValueError"
proof -
  have "calcular_valor_catastral w nan_score_row = Inl ValueError"
    by (simp add: calcular_valor_catastral_def nan_score_row_get py_float_def py_int_def bind_exn_def)
  then show ?thesis by (rule format_predio_info_failure)
qed

section \<open>Results\<close>

subsection \<open>The table after a query\<close>

text \<open>
  Claim C1 (all three matching operations leave the table as it was loaded) does not hold
  of \<open>find_predio_by_address\<close>: on the sample table, a query leaves the service with the
  table extended by the column \<open>normalized_address\<close>, which the source calls temporary
  and never removes. (\<open>find_nearest_predio_state\<close> and \<open>find_nearby_pois_state\<close> above
  show that the two other operations leave the state unchanged.)
\<close>

theorem find_predio_by_address_writes_column:
  "fst (snd (find_predio_by_address offline_world sample_service ''Carrera 7 12 34'')) =
     sample_service\<lparr>predios_df := Some (with_normalized sample_frame)\<rparr> \<and>
   columns (with_normalized sample_frame) = columns sample_frame @ [''normalized_address''] \<and>
   fst (snd (find_predio_by_address offline_world sample_service ''Carrera 7 12 34'')) \<noteq> sample_service"
proof -
  have h1: "predios_df sample_service = Some sample_frame" by (simp add: sample_service_def)
  have h2: "\<not> df_empty sample_frame" by (simp add: sample_frame_def df_empty_def sample_columns_def)
  have e: "find (\<lambda>r. normalize_address (stored_address r) = normalize_address ''Carrera 7 12 34'')
     (rows sample_frame) = Some (sample_row ''AAA0045TEOM'' ''KR 7 12 34'' 90 (1205 / 10) 90)"
    by (simp add: rows_sample_frame stored_address_sample_row sample_normal_forms)
  have s: "fst (snd (find_predio_by_address offline_world sample_service ''Carrera 7 12 34'')) =
     sample_service\<lparr>predios_df := Some (with_normalized sample_frame)\<rparr>"
    using find_predio_by_address_unfold [OF h1 h2 text_addresses_sample_frame,
        of offline_world "''Carrera 7 12 34''"]
    by (simp add: e)
  have c: "columns (with_normalized sample_frame) = columns sample_frame @ [''normalized_address'']"
    by (simp add: columns_with_normalized sample_frame_def sample_columns_def)
  have "with_normalized sample_frame \<noteq> sample_frame"
  proof
    assume "with_normalized sample_frame = sample_frame"
    then have "columns (with_normalized sample_frame) = columns sample_frame" by simp
    with c show False by simp
  qed
  then have "sample_service\<lparr>predios_df := Some (with_normalized sample_frame)\<rparr> \<noteq> sample_service"
    by (simp add: sample_service_def)
  with s c show ?thesis by simp
qed

subsection \<open>Address normalisation\<close>

text \<open>
  Claim C2, as amended. \<open>_normalize_address\<close> is not idempotent in general: the table is
  applied after the white space has been collapsed and trimmed, so a replacement can leave
  new runs of spaces, spaces at the ends or new occurrences of a key. Idempotence holds for
  every input whose normal form has clean white space (single inner spaces only) and holds
  no key of the table: normalising that normal form again returns it unchanged.
\<close>

theorem normalize_address_stable:
  assumes "ws_clean (normalize_address x)" and "key_free replacements (normalize_address x)"
  shows "normalize_address (normalize_address x) = normalize_address x"
proof -
  let ?y = "normalize_address x"
  have l: "lower ?y = ?y" by (rule lowered_fix [OF lowered_normalize])
  have w: "sub_ws ?y = ?y" using assms(1) by (simp add: ws_clean_def sub_ws_clean)
  have s: "strip ?y = ?y" using assms(1) by (simp add: ws_clean_def strip_clean)
  have r: "apply_replacements replacements ?y = ?y"
    by (rule apply_key_free [OF replacements_keys assms(2)])
  have "normalize_address ?y = apply_replacements replacements (strip (sub_ws (lower ?y)))"
    by (simp only: normalize_address_def)
  then show ?thesis by (simp only: l w s r)
qed

theorem normalize_address_stable_witness:
  "ws_clean (normalize_address ''Calle 65G BIS A SUR 77I 09'') \<and>
   key_free replacements (normalize_address ''Calle 65G BIS A SUR 77I 09'') \<and>
   normalize_address ''Calle 65G BIS A SUR 77I 09'' = ''cl 65g bis a s 77i 09'' \<and>
   normalize_address (normalize_address ''Calle 65G BIS A SUR 77I 09'') =
     normalize_address ''Calle 65G BIS A SUR 77I 09''"
proof -
  have h1: "ws_clean (normalize_address ''Calle 65G BIS A SUR 77I 09'')" by code_simp
  have h2: "key_free replacements (normalize_address ''Calle 65G BIS A SUR 77I 09'')" by code_simp
  have h3: "normalize_address ''Calle 65G BIS A SUR 77I 09'' = ''cl 65g bis a s 77i 09''" by code_simp
  from h1 h2 h3 normalize_address_stable [OF h1 h2] show ?thesis by blast
qed

text \<open>
  Claim C2 as stated fails: the hyphen of \<open>Calle 10 - 20\<close> becomes a third space between
  two spaces, which the second pass collapses.
\<close>

theorem normalize_address_not_idempotent:
  "normalize_address (normalize_address ''Calle 10 - 20'') \<noteq> normalize_address ''Calle 10 - 20''"
  by code_simp

text \<open>
  Claim C3, as amended. \<open>_normalize_address\<close> lower-cases, collapses and trims the white
  space, applies the first eleven entries of the table in order, then removes every
  \<open>#\<close> and turns every hyphen into a space: its result contains neither \<open>#\<close> nor a
  hyphen.
\<close>

theorem normalize_address_symbols:
  "normalize_address x =
     map (\<lambda>c. if c = CHR ''-'' then CHR '' '' else c)
       (filter (\<lambda>c. c \<noteq> CHR ''#'')
          (apply_replacements (take 11 replacements) (strip (sub_ws (lower x))))) \<and>
   CHR ''#'' \<notin> set (normalize_address x) \<and>
   CHR ''-'' \<notin> set (normalize_address x)"
proof -
  have 1: "normalize_address x =
     map (\<lambda>c. if c = CHR ''-'' then CHR '' '' else c)
       (filter (\<lambda>c. c \<noteq> CHR ''#'')
          (apply_replacements (take 11 replacements) (strip (sub_ws (lower x)))))"
    by (simp add: normalize_address_def apply_replacements_def replacements_def
        replace_single_del replace_single_sub)
  have 2: "CHR ''#'' \<notin> set (normalize_address x)" by (subst 1) auto
  have 3: "CHR ''-'' \<notin> set (normalize_address x)" by (subst 1) auto
  from 1 2 3 show ?thesis by blast
qed

theorem normalize_address_symbols_witness:
  "normalize_address ''Carrera 7 # 12-34'' = ''kr 7  12 34'' \<and>
   CHR ''#'' \<notin> set (normalize_address ''Carrera 7 # 12-34'') \<and>
   CHR ''-'' \<notin> set (normalize_address ''Carrera 7 # 12-34'')"
proof -
  have "normalize_address ''Carrera 7 # 12-34'' = ''kr 7  12 34''" by code_simp
  with normalize_address_symbols [of "''Carrera 7 # 12-34''"] show ?thesis by blast
qed

text \<open>
  Claim C3 as stated fails for the words: the key written \<open>'no\.'\<close> holds a backslash and
  never matches \<open>no.\<close>; the table has the unaccented \<open>numero\<close>, so the accented word
  (u with acute, code point 250) stays; and removing \<open>#\<close> after \<open>numero\<close> can leave a
  \<open>numero\<close> in the result.
\<close>

theorem normalize_address_keeps_words:
  "normalize_address ''No. 5'' = ''no. 5'' \<and>
   normalize_address (''N'' @ [CHR 0xDA] @ ''MERO 5'') = ''n'' @ [CHR 0xFA] @ ''mero 5'' \<and>
   normalize_address ''nu#mero 5'' = ''numero 5''"
  by code_simp

subsection \<open>Exceptions\<close>

text \<open>
  Claim C4 (no public operation raises) does not hold: without a Google key and with a
  Nominatim request that fails, \<open>geocode_address\<close> raises the exception of the request,
  and so does \<open>find_predio_by_address\<close> when no row matches and it falls back to
  geocoding.
\<close>

theorem geocode_address_fallback_raises:
  "geocode_address offline_world None ''Calle 147 #11-10'' None =
     (Inl (Raised ''ConnectionError''),
      [Sleep 1,
       HttpGet NOMINATIM_API_URL
         [(''q'', ''Calle 147 #11-10''), (''format'', ''json''), (''addressdetails'', ''1''),
          (''limit'', ''5'')]
         [(''User-Agent'', ''CatastroMCP/1.0'')]]) \<and>
   fst (find_predio_by_address offline_world sample_service ''Avenida 1'') =
     Inl (Raised ''ConnectionError'')"
proof -
  have g: "geocode_address offline_world None a None =
     (Inl (Raised ''ConnectionError''),
      [Sleep 1,
       HttpGet NOMINATIM_API_URL
         [(''q'', a), (''format'', ''json''), (''addressdetails'', ''1''), (''limit'', ''5'')]
         [(''User-Agent'', ''CatastroMCP/1.0'')]])" for a
    by (simp add: geocode_address_def geocode_nominatim_def truthy_def offline_world_def
        bind_exn_def Let_def)
  have h1: "predios_df sample_service = Some sample_frame" by (simp add: sample_service_def)
  have h2: "\<not> df_empty sample_frame" by (simp add: sample_frame_def df_empty_def sample_columns_def)
  have n: "normalize_address ''Avenida 1'' = ''av 1''" by code_simp
  have ns: "\<not> sublist ''av 1'' ''cl 65g bis a s 77i 09''" "\<not> sublist ''av 1'' ''kr 7 12 34 ap 101''"
    "\<not> sublist ''av 1'' ''kr 7 12 34''"
    by code_simp+
  have e: "find (\<lambda>r. normalize_address (stored_address r) = normalize_address ''Avenida 1'')
     (rows sample_frame) = None"
    by (simp add: rows_sample_frame stored_address_sample_row sample_normal_forms n)
  have p: "find (\<lambda>r. sublist (normalize_address ''Avenida 1'') (normalize_address (stored_address r)))
     (rows sample_frame) = None"
    by (simp add: rows_sample_frame stored_address_sample_row sample_normal_forms n ns)
  have k: "google_api_key (sample_service\<lparr>predios_df := Some (with_normalized sample_frame)\<rparr>) = None"
    by (simp add: sample_service_def)
  have "fst (find_predio_by_address offline_world sample_service ''Avenida 1'') =
     Inl (Raised ''ConnectionError'')"
    using find_predio_by_address_unfold [OF h1 h2 text_addresses_sample_frame,
        of offline_world "''Avenida 1''"]
    by (simp add: e p find_predio_by_geocoding_def k g)
  with g [of "''Calle 147 #11-10''"] show ?thesis by simp
qed

subsection \<open>Matching by address\<close>

text \<open>
  Claim C5. On a table that is not empty and whose address column holds text,
  \<open>find_predio_by_address\<close> returns the formatted first row whose normalised address
  equals the normalised query, if there is one; otherwise the formatted first row whose
  normalised address contains the normalised query; and only when there is neither does it
  call the geocoding fallback (with the raw address), which then makes a request. In the
  first two cases no request is made.
\<close>

theorem find_predio_by_address_priority:
  assumes "predios_df self = Some df" and "\<not> df_empty df" and "text_addresses df"
  shows
    "(\<forall>r. find (\<lambda>r. normalize_address (stored_address r) = normalize_address address) (rows df) = Some r
        \<longrightarrow> find_predio_by_address w self address =
              (Inr (format_predio_info w r), self\<lparr>predios_df := Some (with_normalized df)\<rparr>, [])) \<and>
     (\<forall>r. find (\<lambda>r. normalize_address (stored_address r) = normalize_address address) (rows df) = None \<and>
          find (\<lambda>r. sublist (normalize_address address) (normalize_address (stored_address r))) (rows df)
            = Some r
        \<longrightarrow> find_predio_by_address w self address =
              (Inr (format_predio_info w r), self\<lparr>predios_df := Some (with_normalized df)\<rparr>, [])) \<and>
     (find (\<lambda>r. normalize_address (stored_address r) = normalize_address address) (rows df) = None \<and>
      find (\<lambda>r. sublist (normalize_address address) (normalize_address (stored_address r))) (rows df)
        = None
        \<longrightarrow> find_predio_by_address w self address =
              find_predio_by_geocoding w (self\<lparr>predios_df := Some (with_normalized df)\<rparr>) address \<and>
            snd (snd (find_predio_by_address w self address)) \<noteq> [])"
  using find_predio_by_address_unfold [OF assms, of w address]
        find_predio_by_geocoding_events [of w "self\<lparr>predios_df := Some (with_normalized df)\<rparr>" address]
  by simp

theorem find_predio_by_address_priority_witness:
  "predios_df sample_service = Some sample_frame \<and>
   \<not> df_empty sample_frame \<and>
   text_addresses sample_frame \<and>
   find (\<lambda>r. sublist (normalize_address ''Carrera 7 12 34'') (normalize_address (stored_address r)))
     (rows sample_frame) = Some (sample_row ''AAA0045TENX'' ''KR 7 12 34 AP 101'' 72 60 29) \<and>
   find (\<lambda>r. normalize_address (stored_address r) = normalize_address ''Carrera 7 12 34'')
     (rows sample_frame) = Some (sample_row ''AAA0045TEOM'' ''KR 7 12 34'' 90 (1205 / 10) 90) \<and>
   find_predio_by_address offline_world sample_service ''Carrera 7 12 34'' =
     (Inr (format_predio_info offline_world (sample_row ''AAA0045TEOM'' ''KR 7 12 34'' 90 (1205 / 10) 90)),
      sample_service\<lparr>predios_df := Some (with_normalized sample_frame)\<rparr>, [])"
proof -
  have h1: "predios_df sample_service = Some sample_frame" by (simp add: sample_service_def)
  have h2: "\<not> df_empty sample_frame" by (simp add: sample_frame_def df_empty_def sample_columns_def)
  have h3: "text_addresses sample_frame" by (rule text_addresses_sample_frame)
  have p: "find (\<lambda>r. sublist (normalize_address ''Carrera 7 12 34'') (normalize_address (stored_address r)))
     (rows sample_frame) = Some (sample_row ''AAA0045TENX'' ''KR 7 12 34 AP 101'' 72 60 29)"
    by (simp add: rows_sample_frame stored_address_sample_row sample_normal_forms sample_sublists)
  have e: "find (\<lambda>r. normalize_address (stored_address r) = normalize_address ''Carrera 7 12 34'')
     (rows sample_frame) = Some (sample_row ''AAA0045TEOM'' ''KR 7 12 34'' 90 (1205 / 10) 90)"
    by (simp add: rows_sample_frame stored_address_sample_row sample_normal_forms)
  from find_predio_by_address_priority [OF h1 h2 h3, of "''Carrera 7 12 34''" offline_world] e
  have "find_predio_by_address offline_world sample_service ''Carrera 7 12 34'' =
     (Inr (format_predio_info offline_world (sample_row ''AAA0045TEOM'' ''KR 7 12 34'' 90 (1205 / 10) 90)),
      sample_service\<lparr>predios_df := Some (with_normalized sample_frame)\<rparr>, [])"
    by blast
  with h1 h2 h3 p e show ?thesis by blast
qed

text \<open>
  Claim C6. When the table is missing or empty, \<open>find_predio_by_address\<close> and
  \<open>find_nearest_predio\<close> return the failure \<open>No hay datos catastrales cargados\<close> for
  every argument, make no request and leave the state as it is (no normalised column is
  written). The witness is a service whose data file could not be read.
\<close>

theorem no_data_loaded:
  assumes "data_unavailable self"
  shows "find_predio_by_address w self address =
           (Inr (Failure ''No hay datos catastrales cargados''), self, []) \<and>
         find_nearest_predio w self p_lat p_lon =
           (Inr (Failure ''No hay datos catastrales cargados''), self, [])"
  using assms
  by (simp add: data_unavailable_def find_predio_by_address_def find_nearest_predio_def no_data_def
      split: option.splits)

theorem no_data_loaded_witness:
  "data_unavailable (CatastroService offline_world ''data/bogota/TPREDIO.csv'' None) \<and>
   find_predio_by_address offline_world
       (CatastroService offline_world ''data/bogota/TPREDIO.csv'' None) ''Calle 147 #11-10'' =
     (Inr (Failure ''No hay datos catastrales cargados''),
      CatastroService offline_world ''data/bogota/TPREDIO.csv'' None, []) \<and>
   find_nearest_predio offline_world
       (CatastroService offline_world ''data/bogota/TPREDIO.csv'' None) NaN NaN =
     (Inr (Failure ''No hay datos catastrales cargados''),
      CatastroService offline_world ''data/bogota/TPREDIO.csv'' None, [])"
proof -
  have h: "data_unavailable (CatastroService offline_world ''data/bogota/TPREDIO.csv'' None)"
    by (rule load_failure_unavailable [of _ _ "Raised ''FileNotFoundError''"])
       (simp add: offline_world_def)
  from h no_data_loaded [OF h, of offline_world "''Calle 147 #11-10''" NaN NaN]
  show ?thesis by simp
qed

subsection \<open>Derived attributes\<close>

text \<open>
  Claim C7. For a row whose score is the integer \<open>score\<close>, the stratum is 1 below 30,
  2 from 30 to 44, 3 from 45 to 59, 4 from 60 to 74, 5 from 75 to 89 and 6 from 90 on. The
  witness gives the four boundary values 29, 30, 89 and 90.
\<close>

theorem determinar_estrato_steps:
  assumes "series_get predio ''PREPUNTAJE'' (PyInt 0) = PyInt score"
  shows "(score < 30 \<longrightarrow> determinar_estrato w predio = Inr 1) \<and>
         (30 \<le> score \<and> score < 45 \<longrightarrow> determinar_estrato w predio = Inr 2) \<and>
         (45 \<le> score \<and> score < 60 \<longrightarrow> determinar_estrato w predio = Inr 3) \<and>
         (60 \<le> score \<and> score < 75 \<longrightarrow> determinar_estrato w predio = Inr 4) \<and>
         (75 \<le> score \<and> score < 90 \<longrightarrow> determinar_estrato w predio = Inr 5) \<and>
         (90 \<le> score \<longrightarrow> determinar_estrato w predio = Inr 6)"
  by (simp add: determinar_estrato_def assms py_int_def bind_exn_def)

theorem determinar_estrato_steps_witness:
  "determinar_estrato offline_world [(''PREPUNTAJE'', PyInt 29)] = Inr 1 \<and>
   determinar_estrato offline_world [(''PREPUNTAJE'', PyInt 30)] = Inr 2 \<and>
   determinar_estrato offline_world [(''PREPUNTAJE'', PyInt 89)] = Inr 5 \<and>
   determinar_estrato offline_world [(''PREPUNTAJE'', PyInt 90)] = Inr 6"
proof -
  have g: "series_get [(''PREPUNTAJE'', PyInt s)] ''PREPUNTAJE'' (PyInt 0) = PyInt s" for s
    by (simp add: series_get_def)
  from determinar_estrato_steps [OF g [of 29], of offline_world]
       determinar_estrato_steps [OF g [of 30], of offline_world]
       determinar_estrato_steps [OF g [of 89], of offline_world]
       determinar_estrato_steps [OF g [of 90], of offline_world]
  show ?thesis by simp
qed

text \<open>
  Claim C8. For a row with the float areas \<open>land\<close> and \<open>built\<close> and the integer score
  \<open>score\<close>, \<open>_calcular_valor_catastral\<close> computes the formula of the specification in
  float arithmetic; for 108.0, 175.9 and 50 the value is exactly 388825000.0.
\<close>

theorem calcular_valor_catastral_formula:
  assumes "series_get predio ''PREATERRE'' (PyInt 0) = PyFloat land"
    and "series_get predio ''PREACONST'' (PyInt 0) = PyFloat built"
    and "series_get predio ''PREPUNTAJE'' (PyInt 0) = PyInt score"
  shows "calcular_valor_catastral w predio = estimated_value land built score \<and>
         (land = float_literal 108 \<and> built = float_literal (1759 / 10) \<and> score = 50 \<longrightarrow>
            calcular_valor_catastral w predio = Inr (Finite False 388825000))"
  using calcular_valor_catastral_eq [OF assms, of w] estimated_value_example by simp

theorem calcular_valor_catastral_formula_witness:
  "series_get (sample_row ''AAA0045TEMS'' ''CL 65G BIS A SUR 77I 09'' 108 (1759 / 10) 50)
     ''PREATERRE'' (PyInt 0) = PyFloat (float_literal 108) \<and>
   series_get (sample_row ''AAA0045TEMS'' ''CL 65G BIS A SUR 77I 09'' 108 (1759 / 10) 50)
     ''PREACONST'' (PyInt 0) = PyFloat (float_literal (1759 / 10)) \<and>
   series_get (sample_row ''AAA0045TEMS'' ''CL 65G BIS A SUR 77I 09'' 108 (1759 / 10) 50)
     ''PREPUNTAJE'' (PyInt 0) = PyInt 50 \<and>
   calcular_valor_catastral offline_world
     (sample_row ''AAA0045TEMS'' ''CL 65G BIS A SUR 77I 09'' 108 (1759 / 10) 50)
     = Inr (Finite False 388825000)"
proof -
  let ?r = "sample_row ''AAA0045TEMS'' ''CL 65G BIS A SUR 77I 09'' 108 (1759 / 10) 50"
  have h1: "series_get ?r ''PREATERRE'' (PyInt 0) = PyFloat (float_literal 108)"
    by (simp add: sample_row_def sample_columns_def series_get_def)
  have h2: "series_get ?r ''PREACONST'' (PyInt 0) = PyFloat (float_literal (1759 / 10))"
    by (simp add: sample_row_def sample_columns_def series_get_def)
  have h3: "series_get ?r ''PREPUNTAJE'' (PyInt 0) = PyInt 50"
    by (simp add: sample_row_def sample_columns_def series_get_def)
  from calcular_valor_catastral_formula [OF h1 h2 h3, of offline_world]
  have "calcular_valor_catastral offline_world ?r = Inr (Finite False 388825000)" by blast
  with h1 h2 h3 show ?thesis by blast
qed

subsection \<open>The canonical response\<close>

text \<open>
  Claim C9. An empty list of Nominatim results is converted into the response with status
  \<open>ZERO_RESULTS\<close> and no results; the conversion returns, it does not raise.
\<close>

theorem convert_empty_list:
  "convert_nominatim_to_google_format w [] = Inr \<lparr>status = ''ZERO_RESULTS'', results = []\<rparr>"
  by (simp add: convert_nominatim_to_google_format_def)

theorem convert_empty_list_witness:
  "convert_nominatim_to_google_format offline_world [] =
     Inr \<lparr>status = ''ZERO_RESULTS'', results = []\<rparr>"
  by (rule convert_empty_list)

subsection \<open>The empty query\<close>

text \<open>
  Claim C10, as amended. On a table that is not empty, whose addresses are text and none
  of which normalises to the empty string, a query that normalises to the empty string
  (such as the empty string or \<open>#\<close>) is answered through the partial match with
  \<open>_format_predio_info\<close> of the first row of the table, without any request. That answer
  is a success exactly when the estimated value of the first row can be computed (its
  areas and its score convert); otherwise it is the formatting failure that carries the
  exception.
\<close>

theorem empty_query_returns_first_row:
  assumes "predios_df self = Some df" and "\<not> df_empty df" and "text_addresses df"
    and "\<forall>r\<in>set (rows df). normalize_address (stored_address r) \<noteq> []"
    and "normalize_address address = []"
  shows "find_predio_by_address w self address =
           (Inr (format_predio_info w (hd (rows df))),
            self\<lparr>predios_df := Some (with_normalized df)\<rparr>, []) \<and>
         (\<forall>v. calcular_valor_catastral w (hd (rows df)) = Inr v \<longrightarrow>
              (\<exists>info. format_predio_info w (hd (rows df)) = Success info \<and> valor_catastral info = v)) \<and>
         (\<forall>e. calcular_valor_catastral w (hd (rows df)) = Inl e \<longrightarrow>
              format_predio_info w (hd (rows df)) = FormatFailure e)"
  using empty_query_unfold [OF assms, of w] format_predio_info_success format_predio_info_failure
  by blast

theorem empty_query_returns_first_row_witness:
  "predios_df sample_service = Some sample_frame \<and>
   \<not> df_empty sample_frame \<and>
   text_addresses sample_frame \<and>
   list_all (\<lambda>r. normalize_address (stored_address r) \<noteq> []) (rows sample_frame) \<and>
   normalize_address ''#'' = [] \<and>
   normalize_address [] = [] \<and>
   calcular_valor_catastral offline_world
     (sample_row ''AAA0045TEMS'' ''CL 65G BIS A SUR 77I 09'' 108 (1759 / 10) 50) =
       Inr (Finite False 388825000) \<and>
   (\<exists>info. format_predio_info offline_world
             (sample_row ''AAA0045TEMS'' ''CL 65G BIS A SUR 77I 09'' 108 (1759 / 10) 50) = Success info \<and>
           valor_catastral info = Finite False 388825000) \<and>
   find_predio_by_address offline_world sample_service ''#'' =
     (Inr (format_predio_info offline_world
             (sample_row ''AAA0045TEMS'' ''CL 65G BIS A SUR 77I 09'' 108 (1759 / 10) 50)),
      sample_service\<lparr>predios_df := Some (with_normalized sample_frame)\<rparr>, []) \<and>
   find_predio_by_address offline_world sample_service [] =
     (Inr (format_predio_info offline_world
             (sample_row ''AAA0045TEMS'' ''CL 65G BIS A SUR 77I 09'' 108 (1759 / 10) 50)),
      sample_service\<lparr>predios_df := Some (with_normalized sample_frame)\<rparr>, [])"
proof -
  have h1: "predios_df sample_service = Some sample_frame" by (simp add: sample_service_def)
  have h2: "\<not> df_empty sample_frame" by (simp add: sample_frame_def df_empty_def sample_columns_def)
  have h3: "text_addresses sample_frame" by (rule text_addresses_sample_frame)
  have h4: "\<forall>r\<in>set (rows sample_frame). normalize_address (stored_address r) \<noteq> []"
    by (simp add: rows_sample_frame stored_address_sample_row sample_normal_forms)
  have h5: "normalize_address ''#'' = []" by code_simp
  have h6: "normalize_address [] = []" by code_simp
  have hd: "hd (rows sample_frame) = sample_row ''AAA0045TEMS'' ''CL 65G BIS A SUR 77I 09'' 108 (1759 / 10) 50"
    by (simp add: rows_sample_frame)
  have v: "calcular_valor_catastral offline_world
     (sample_row ''AAA0045TEMS'' ''CL 65G BIS A SUR 77I 09'' 108 (1759 / 10) 50) =
       Inr (Finite False 388825000)"
    using calcular_valor_catastral_eq
      [of "sample_row ''AAA0045TEMS'' ''CL 65G BIS A SUR 77I 09'' 108 (1759 / 10) 50"
          "float_literal 108" "float_literal (1759 / 10)" 50 offline_world]
    by (simp add: sample_row_get estimated_value_example)
  from empty_query_returns_first_row [OF h1 h2 h3 h4 h5, of offline_world]
       empty_query_returns_first_row [OF h1 h2 h3 h4 h6, of offline_world]
       h1 h2 h3 h4 h5 h6 v
  show ?thesis by (simp add: hd list_all_iff)
qed

text \<open>
  Claim C10 as stated (the call succeeds) fails on a table whose first row has no score:
  the field reads as NaN, \<open>int\<close> of it raises ValueError, and the answer is the formatting
  failure.
\<close>

theorem empty_query_format_failure:
  "predios_df nan_score_service = Some nan_score_frame \<and>
   \<not> df_empty nan_score_frame \<and>
   text_addresses nan_score_frame \<and>
   list_all (\<lambda>r. normalize_address (stored_address r) \<noteq> []) (rows nan_score_frame) \<and>
   normalize_address ''#'' = [] \<and>
   normalize_address [] = [] \<and>
   fst (find_predio_by_address offline_world nan_score_service ''#'') = Inr (FormatFailure ValueError) \<and>
   fst (find_predio_by_address offline_world nan_score_service []) = Inr (FormatFailure ValueError)"
proof -
  have h1: "predios_df nan_score_service = Some nan_score_frame" by (simp add: nan_score_service_def)
  have h2: "\<not> df_empty nan_score_frame"
    by (simp add: nan_score_frame_def df_empty_def sample_columns_def)
  have h3: "text_addresses nan_score_frame"
    by (simp add: text_addresses_def nan_score_frame_def nan_score_row_get sample_columns_def)
  have sa: "stored_address nan_score_row = ''CL 65G BIS A SUR 77I 09''"
    by (simp add: stored_address_def nan_score_row_get)
  have h4: "\<forall>r\<in>set (rows nan_score_frame). normalize_address (stored_address r) \<noteq> []"
    by (simp add: nan_score_frame_def sa sample_normal_forms)
  have h5: "normalize_address ''#'' = []" by code_simp
  have h6: "normalize_address [] = []" by code_simp
  have hd: "hd (rows nan_score_frame) = nan_score_row" by (simp add: nan_score_frame_def)
  from empty_query_unfold [OF h1 h2 h3 h4 h5, of offline_world]
       empty_query_unfold [OF h1 h2 h3 h4 h6, of offline_world]
       h1 h2 h3 h4 h5 h6
  show ?thesis by (simp add: hd list_all_iff format_predio_info_nan_score)
qed

end
